theory Spec2Isabelle
  imports Main "HOL-Library.Word"
begin

unbundle bit_operations_syntax

section \<open>EFI basics\<close>

text \<open>
  \<open>CHAR8\<close> and \<open>CHAR16\<close> are the 8-bit and 16-bit character types of the firmware
  interface.  A string object is the list of the characters stored from the pointer
  onwards; the position after the last stored character reads as the NUL terminator
  (\<open>deref\<close>), which is how a C string literal is laid out.  The fixed-size buffers the
  code scans are terminated inside their bounds before they are scanned (see
  \<open>read_bcb\<close>), or are scanned with an explicit length that stays inside them.
\<close>

type_synonym CHAR8 = "8 word"
type_synonym CHAR16 = "16 word"

fun deref :: "'a::zero list \<Rightarrow> 'a" where
  "deref [] = 0"
| "deref (c # cs) = c"

definition str8 :: "string \<Rightarrow> CHAR8 list" where
  "str8 s = map (\<lambda>c. of_char c) s"

definition str16 :: "string \<Rightarrow> CHAR16 list" where
  "str16 s = map (\<lambda>c. of_char c) s"

text \<open>
  \<open>EFI_STATUS\<close> is an unsigned machine word: 0 is success, a code with the top bit
  set is an error (\<open>EFIERR n\<close>), any other non-zero code is a warning
  (\<open>EFI_WARNING n\<close> stands for a non-zero code without the top bit).  The macro
  \<open>EFI_ERROR\<close> tests the top bit.
\<close>

datatype efi_status = EFI_SUCCESS | EFI_WARNING nat | EFIERR nat

fun EFI_ERROR :: "efi_status \<Rightarrow> bool" where
  "EFI_ERROR (EFIERR n) = True"
| "EFI_ERROR EFI_SUCCESS = False"
| "EFI_ERROR (EFI_WARNING n) = False"

abbreviation EFI_LOAD_ERROR :: efi_status where "EFI_LOAD_ERROR \<equiv> EFIERR 1"
abbreviation EFI_INVALID_PARAMETER :: efi_status where "EFI_INVALID_PARAMETER \<equiv> EFIERR 2"
abbreviation EFI_BUFFER_TOO_SMALL :: efi_status where "EFI_BUFFER_TOO_SMALL \<equiv> EFIERR 5"
abbreviation EFI_NOT_READY :: efi_status where "EFI_NOT_READY \<equiv> EFIERR 6"
abbreviation EFI_OUT_OF_RESOURCES :: efi_status where "EFI_OUT_OF_RESOURCES \<equiv> EFIERR 9"
abbreviation EFI_NOT_FOUND :: efi_status where "EFI_NOT_FOUND \<equiv> EFIERR 14"
abbreviation EFI_ACCESS_DENIED :: efi_status where "EFI_ACCESS_DENIED \<equiv> EFIERR 15"

subsection \<open>String routines of the EFI library\<close>

text \<open>
  \<open>StrCmp\<close> walks both strings while the first has not ended and the characters
  agree, and returns the difference of the characters it stopped at.
\<close>

fun StrCmp :: "CHAR16 list \<Rightarrow> CHAR16 list \<Rightarrow> int" where
  "StrCmp [] s2 = uint (0 :: CHAR16) - uint (deref s2)"
| "StrCmp (c # s1) s2 =
     (if c \<noteq> 0 \<and> c = deref s2 then StrCmp s1 (tl s2)
      else uint c - uint (deref s2))"

text \<open>
  \<open>strncmpa\<close> is the same walk over 8-bit strings, bounded by \<open>len\<close> characters; when
  the bound is used up the result is 0.
\<close>

fun strncmpa :: "CHAR8 list \<Rightarrow> CHAR8 list \<Rightarrow> nat \<Rightarrow> int" where
  "strncmpa s1 s2 0 = 0"
| "strncmpa [] s2 (Suc len) = uint (0 :: CHAR8) - uint (deref s2)"
| "strncmpa (c # s1) s2 (Suc len) =
     (if c \<noteq> 0 \<and> c = deref s2 then strncmpa s1 (tl s2) len
      else uint c - uint (deref s2))"

section \<open>Boot targets and build switches\<close>

datatype boot_target =
    NORMAL_BOOT | RECOVERY | FASTBOOT | MEMORY | ESP_EFI_BINARY | ESP_BOOTIMAGE
  | CHARGER | POWER_OFF | TDOS | EXIT_SHELL | UNKNOWN_TARGET

text \<open>
  The preprocessor switches the modelled functions depend on, and the library
  routines they call whose code is not part of the sources, taken as parameters:
  \<open>name_to_boot_target\<close> (the table of target names), \<open>strtoul16\<close> and
  \<open>ui_keycode_to_event\<close>; and the constants of the kernel boot protocol that a header
  outside the sources defines (\<open>SETUP_HDR\<close> and the two handover flags of
  \<open>xloadflags\<close>).  Of the key events, which a header outside the sources lists,
  only \<open>EV_DOWN\<close> is named by the modelled code.
\<close>

datatype ui_events = EV_NONE | EV_UP | EV_DOWN | EV_OTHER

record platform =
  USERFASTBOOT :: bool
  USER :: bool
  LP64 :: bool
  name_to_boot_target :: "CHAR16 list \<Rightarrow> boot_target"
  strtoul16 :: "CHAR16 list \<Rightarrow> nat"
  ui_keycode_to_event :: "CHAR16 \<Rightarrow> ui_events"
  SETUP_HDR :: "32 word"
  XLF_EFI_HANDOVER_32 :: "16 word"
  XLF_EFI_HANDOVER_64 :: "16 word"

section \<open>Validating a boot image against a keystore\<close>

text \<open>
  \<open>verify_android_boot_image\<close> is the external signature verifier: it returns a status
  and writes the target label found in the signature.  Its outcome is the argument
  \<open>verified\<close>.
\<close>

fun expected_labels :: "platform \<Rightarrow> boot_target \<Rightarrow> CHAR16 list option \<times> CHAR16 list option" where
  "expected_labels P NORMAL_BOOT = (Some (str16 ''/boot''), Some (str16 ''/recovery''))"
| "expected_labels P CHARGER = (Some (str16 ''/boot''), None)"
| "expected_labels P RECOVERY = (Some (str16 ''/recovery''), None)"
| "expected_labels P ESP_BOOTIMAGE =
     (Some (str16 ''/boot''), if USERFASTBOOT P then Some (str16 ''/fastboot'') else None)"
| "expected_labels P _ = (None, None)"

fun label_differs :: "CHAR16 list option \<Rightarrow> CHAR16 list \<Rightarrow> bool" where
  "label_differs None target = True"
| "label_differs (Some expected) target = (StrCmp expected target \<noteq> 0)"

definition validate_bootimage ::
  "platform \<Rightarrow> boot_target \<Rightarrow> efi_status \<times> CHAR16 list \<Rightarrow> efi_status" where
  "validate_bootimage P boot_target verified =
     (case verified of (ret, target) \<Rightarrow>
        if EFI_ERROR ret then EFI_ACCESS_DENIED
        else case expected_labels P boot_target of (expected, expected2) \<Rightarrow>
          if label_differs expected target \<and> label_differs expected2 target
          then EFI_ACCESS_DENIED
          else EFI_SUCCESS)"

section \<open>The state read and written by the boot decision\<close>

text \<open>
  The enumerations of the reset and wake sources come from a header that is not part
  of the sources; the constructors are the values the sources name, and one more
  for every other value.
\<close>

datatype reset_sources =
    RESET_KERNEL_WATCHDOG | RESET_SECURITY_WATCHDOG | RESET_PMC_WATCHDOG
  | RESET_EC_WATCHDOG | RESET_PLATFORM_WATCHDOG | RESET_SECURITY_INITIATED
  | RESET_OTHER

datatype wake_sources =
    WAKE_BATTERY_INSERTED | WAKE_USB_CHARGER_INSERTED | WAKE_ACDC_CHARGER_INSERTED
  | WAKE_POWER_BUTTON_PRESSED | WAKE_RTC_TIMER | WAKE_BATTERY_REACHED_IA_THRESHOLD
  | WAKE_OTHER

record efi_time =
  Year :: "16 word"
  Month :: "8 word"
  Day :: "8 word"
  Hour :: "8 word"
  Minute :: "8 word"
  Second :: "8 word"

text \<open>What the decision does besides returning a target, in the order it happens.\<close>

datatype effect =
    Bootlogic string
  | ConIn_Reset
  | ReadKeyStroke
  | Stall nat
  | Crash_event_prompt
  | Display_low_battery nat
  | Unittest_main "CHAR16 list option"

text \<open>
  One record holds the variables of the caller that the out-parameters point to
  (\<open>target_address\<close>, \<open>target_path\<close>, \<open>oneshot\<close>), the persistent data (watchdog
  variables, the 64 bytes at the start of the misc partition, the one-shot variable)
  and what the firmware and the hardware answer when asked (the \<open>_ret\<close> fields are
  the status a call returns).
\<close>

record world =
  target_address :: nat
  target_path :: "CHAR16 list option"
  oneshot :: bool
  effects :: "effect list"
  crash_event_menu :: bool
  get_watchdog_status_ret :: efi_status
  watchdog_counter :: "8 word"
  watchdog_time_reference :: efi_time
  reset_source :: reset_sources
  reset_watchdog_status_ret :: efi_status
  set_watchdog_counter_ret :: efi_status
  set_watchdog_time_reference_ret :: efi_status
  GetTime_ret :: efi_status
  current_time :: efi_time
  crash_prompt_choice :: boot_target
  get_argv_ret :: efi_status
  argv :: "CHAR16 list list"
  file_exists :: "CHAR16 list \<Rightarrow> bool"
  MagicKeyTimeout :: "nat option"
  ReadKeyStroke_result :: "nat \<Rightarrow> efi_status \<times> CHAR16"
  key_held :: bool
  wake_source :: wake_sources
  off_mode_charge :: bool
  battery_below_boot_OS_threshold :: bool
  charger_plugged_in :: bool
  misc_partition_ret :: efi_status
  misc_ReadDisk_ret :: efi_status
  misc_WriteDisk_ret :: efi_status
  misc_data :: "CHAR8 list"
  stra_to_str_alloc :: bool
  StrDuplicate_alloc :: bool
  LoaderEntryOneShot :: "CHAR16 list option"

definition add_effect :: "effect \<Rightarrow> world \<Rightarrow> world" where
  "add_effect e w = w\<lparr>effects := effects w @ [e]\<rparr>"

section \<open>The watchdog check\<close>

definition WATCHDOG_COUNTER_MAX :: nat where
  "WATCHDOG_COUNTER_MAX = 2"

definition WATCHDOG_DELAY :: int where
  "WATCHDOG_DELAY = 10 * 60"

definition is_a_leap_year :: "int \<Rightarrow> bool" where
  "is_a_leap_year year = ((year mod 4 = 0 \<and> year mod 100 \<noteq> 0) \<or> year mod 400 = 0)"

text \<open>
  \<open>INTN\<close> is the signed integer of the machine word: 64 bits on an LP64 build, 32 bits
  otherwise.  \<open>INTN P\<close> brings an integer into its range, wrapping around as two's
  complement arithmetic does; sums and products may be computed exactly and wrapped
  once at the end, with the same result as wrapping at every step.
\<close>

definition INTN :: "platform \<Rightarrow> int \<Rightarrow> int" where
  "INTN P x = (if LP64 P then signed_take_bit 63 x else signed_take_bit 31 x)"

text \<open>
  The two loops of \<open>efi_time_to_ctime\<close>.  The first runs \<open>i\<close> from 1970 up to the
  year, the second adds the table entries of the months before \<open>time->Month\<close>.  The
  number of days stays below \<open>2^31\<close> for every 16-bit year; the number of seconds does
  not on a 32-bit build, and is wrapped where it is computed.
  The table has 12 entries, and a month of 14 or more would read behind it; the
  firmware's month is between 1 and 12.
\<close>

function year_loop :: "nat \<Rightarrow> nat \<Rightarrow> int \<Rightarrow> int" where
  "year_loop i year days =
     (if i < year
      then year_loop (i + 1) year (days + (if is_a_leap_year (int i) then 365 else 366))
      else days)"
  by pat_completeness auto
termination
  by (relation "measure (\<lambda>(i, year, days). year - i)") auto

declare year_loop.simps [simp del]

function month_loop :: "nat list \<Rightarrow> nat \<Rightarrow> nat \<Rightarrow> int \<Rightarrow> int" where
  "month_loop table i month days =
     (if i + 1 < month
      then month_loop table (i + 1) month (days + int (table ! i))
      else days)"
  by pat_completeness auto
termination
  by (relation "measure (\<lambda>(table, i, month, days). month - i)") auto

declare month_loop.simps [simp del]

definition DAY_OF_MONTH :: "nat list" where
  "DAY_OF_MONTH = [31, 28, 31, 30, 31, 30, 31, 31, 30, 31, 30, 31]"

definition efi_time_to_ctime :: "platform \<Rightarrow> efi_time \<Rightarrow> int" where
  "efi_time_to_ctime P time =
     (let days = year_loop 1970 (unat (Year time)) 0;
          table = (if is_a_leap_year (uint (Year time))
                   then DAY_OF_MONTH[1 := 29] else DAY_OF_MONTH);
          days = month_loop table 0 (unat (Month time)) days
      in INTN P ((days * 24 * 3600) + (uint (Hour time) * 3600)
                 + (uint (Minute time) * 60) + uint (Second time)))"

text \<open>
  Modelled from the spec: the accessors of the watchdog variables
  (\<open>get_watchdog_status\<close>, \<open>reset_watchdog_status\<close>, \<open>set_watchdog_counter\<close>,
  \<open>set_watchdog_time_reference\<close>) are declared in \<open>vars.h\<close> and defined outside the
  sources.  The watchdog status is the pair of a counter and a time reference; a
  setter that does not fail stores its argument, and resetting the status stores the
  counter 0.
\<close>

definition reset_watchdog_status :: "world \<Rightarrow> efi_status \<times> world" where
  "reset_watchdog_status w =
     (reset_watchdog_status_ret w,
      if EFI_ERROR (reset_watchdog_status_ret w) then w else w\<lparr>watchdog_counter := 0\<rparr>)"

definition set_watchdog_counter :: "8 word \<Rightarrow> world \<Rightarrow> efi_status \<times> world" where
  "set_watchdog_counter counter w =
     (set_watchdog_counter_ret w,
      if EFI_ERROR (set_watchdog_counter_ret w) then w else w\<lparr>watchdog_counter := counter\<rparr>)"

definition set_watchdog_time_reference :: "efi_time \<Rightarrow> world \<Rightarrow> efi_status \<times> world" where
  "set_watchdog_time_reference time w =
     (set_watchdog_time_reference_ret w,
      if EFI_ERROR (set_watchdog_time_reference_ret w) then w
      else w\<lparr>watchdog_time_reference := time\<rparr>)"

text \<open>
  \<open>check_watchdog\<close>.  The local \<open>counter\<close> is a \<open>UINT8\<close>: \<open>counter++\<close> wraps.  The
  local \<open>time_diff\<close> is an \<open>INTN\<close>.
\<close>

definition check_watchdog :: "platform \<Rightarrow> world \<Rightarrow> boot_target \<times> world" where
  "check_watchdog P w =
     (if \<not> crash_event_menu w then (NORMAL_BOOT, w)
      else if EFI_ERROR (get_watchdog_status_ret w) then (NORMAL_BOOT, w)
      else
        let counter = watchdog_counter w; time_ref = watchdog_time_reference w in
        if reset_source w \<noteq> RESET_KERNEL_WATCHDOG
           \<and> reset_source w \<noteq> RESET_SECURITY_WATCHDOG
        then (if counter \<noteq> 0 then (NORMAL_BOOT, snd (reset_watchdog_status w))
              else (NORMAL_BOOT, w))
        else if EFI_ERROR (GetTime_ret w) then (NORMAL_BOOT, w)
        else
          let now = current_time w;
              time_diff = INTN P (efi_time_to_ctime P now - efi_time_to_ctime P time_ref);
              counter = (if 0 < counter \<and> (time_diff < 0 \<or> time_diff > WATCHDOG_DELAY)
                         then 0 else counter);
              (ret, w) = (if counter = 0 then set_watchdog_time_reference now w
                          else (GetTime_ret w, w))
          in
          if EFI_ERROR ret then (NORMAL_BOOT, w)
          else
            let counter = counter + 1 in
            if unat counter \<le> WATCHDOG_COUNTER_MAX
            then (NORMAL_BOOT, snd (set_watchdog_counter counter w))
            else (crash_prompt_choice w,
                  add_effect Crash_event_prompt (snd (reset_watchdog_status w))))"

text \<open>
  The time of day of a timestamp in seconds.  For two timestamps of the same day the
  elapsed time is the difference of their times of day.
\<close>

definition seconds_of_day :: "efi_time \<Rightarrow> int" where
  "seconds_of_day time =
     uint (Hour time) * 3600 + uint (Minute time) * 60 + uint (Second time)"

definition watchdog_class :: "reset_sources \<Rightarrow> bool" where
  "watchdog_class source = (source = RESET_KERNEL_WATCHDOG \<or> source = RESET_SECURITY_WATCHDOG)"

section \<open>The command line, sentinel, magic key and power checks\<close>

text \<open>
  The loop of \<open>check_command_line\<close> over \<open>argv[pos]\<close>: the list is the arguments from
  \<open>pos\<close> on, \<open>first\<close> says that \<open>pos\<close> is 0, \<open>bt\<close> and \<open>address\<close> are the locals.  The
  result also lists the call of the unit tests.
\<close>

fun parse_argv ::
  "platform \<Rightarrow> bool \<Rightarrow> CHAR16 list list \<Rightarrow> boot_target \<Rightarrow> nat
     \<Rightarrow> boot_target \<times> nat \<times> effect list" where
  "parse_argv P first [] bt address = (bt, address, [])"
| "parse_argv P first (arg # rest) bt address =
     (if \<not> USERFASTBOOT P \<and> StrCmp arg (str16 ''-f'') = 0
      then parse_argv P False rest FASTBOOT address
      else if \<not> USER P \<and> StrCmp arg (str16 ''-U'') = 0
      then (EXIT_SHELL, address,
            [Unittest_main (case rest of [] \<Rightarrow> None | name # _ \<Rightarrow> Some name)])
      else if StrCmp arg (str16 ''-a'') = 0
      then (case rest of
              [] \<Rightarrow> (bt, address, [])
            | value # rest' \<Rightarrow>
                if USERFASTBOOT P
                then parse_argv P False rest' MEMORY (strtoul16 P value)
                else parse_argv P False rest' FASTBOOT address)
      else if first then parse_argv P False rest bt address
      else (bt, address, []))"

definition check_command_line :: "platform \<Rightarrow> world \<Rightarrow> boot_target \<times> world" where
  "check_command_line P w =
     (let w = w\<lparr>target_address := 0\<rparr> in
      if EFI_ERROR (get_argv_ret w) then (NORMAL_BOOT, w)
      else case parse_argv P True (argv w) NORMAL_BOOT 0 of
             (bt, address, es) \<Rightarrow>
               (bt, w\<lparr>target_address := address, effects := effects w @ es\<rparr>))"

definition FASTBOOT_SENTINEL :: "CHAR16 list" where
  "FASTBOOT_SENTINEL = str16 (CHR 0x5C # ''force_fastboot'')"

definition check_fastboot_sentinel :: "world \<Rightarrow> boot_target \<times> world" where
  "check_fastboot_sentinel w =
     (if file_exists w FASTBOOT_SENTINEL then (FASTBOOT, w) else (NORMAL_BOOT, w))"

subsection \<open>Magic key\<close>

definition EFI_RESET_WAIT_MS :: nat where
  "EFI_RESET_WAIT_MS = 200"

definition DETECT_KEY_STALL_TIME_MS :: nat where
  "DETECT_KEY_STALL_TIME_MS = 1"

definition MAGIC_KEY :: ui_events where
  "MAGIC_KEY = EV_DOWN"

text \<open>
  Modelled from the spec: \<open>get_efi_variable_long_from_str8\<close> is defined outside the
  sources.  It reads a persisted variable as a number; when the variable is absent
  or malformed it returns an error and leaves the caller's value as it is.
\<close>

definition get_efi_variable_long_from_str8 :: "nat option \<Rightarrow> nat \<Rightarrow> efi_status \<times> nat" where
  "get_efi_variable_long_from_str8 var i =
     (case var of None \<Rightarrow> (EFI_NOT_FOUND, i) | Some v \<Rightarrow> (EFI_SUCCESS, v))"

text \<open>The value of \<open>wait_ms\<close> when the polling loop of \<open>check_magic_key\<close> starts.\<close>

definition magic_key_wait_ms :: "world \<Rightarrow> nat" where
  "magic_key_wait_ms w =
     (let wait_ms = EFI_RESET_WAIT_MS in
      case get_efi_variable_long_from_str8 (MagicKeyTimeout w) wait_ms of
        (ret, wait_ms) \<Rightarrow>
          if EFI_ERROR ret then wait_ms
          else if wait_ms > 1000 then EFI_RESET_WAIT_MS
          else wait_ms)"

text \<open>
  The polling loop: \<open>i\<close> counts the tries, \<open>rk\<close> is the status and the scan code of the
  last \<open>ReadKeyStroke\<close>, \<open>es\<close> the calls made so far.  The body runs at least once,
  so the initial \<open>rk\<close> is never what the loop returns.
\<close>

function poll_key ::
  "(nat \<Rightarrow> efi_status \<times> CHAR16) \<Rightarrow> nat \<Rightarrow> nat \<Rightarrow> efi_status \<times> CHAR16 \<Rightarrow> effect list
     \<Rightarrow> nat \<times> (efi_status \<times> CHAR16) \<times> effect list" where
  "poll_key rd wait_ms i rk es =
     (if i \<le> wait_ms
      then (if fst (rd i) = EFI_SUCCESS \<or> i = wait_ms
            then (i, rd i, es @ [ReadKeyStroke])
            else poll_key rd wait_ms (i + DETECT_KEY_STALL_TIME_MS) (rd i)
                   (es @ [ReadKeyStroke, Stall (DETECT_KEY_STALL_TIME_MS * 1000)]))
      else (i, rk, es))"
  by pat_completeness auto
termination
  by (relation "measure (\<lambda>(rd, wait_ms, i, rk, es). Suc wait_ms - i)")
     (auto simp: DETECT_KEY_STALL_TIME_MS_def)

declare poll_key.simps [simp del]

definition FASTBOOT_HOLD_DELAY :: nat where
  "FASTBOOT_HOLD_DELAY = 2 * 1000"

definition check_magic_key :: "platform \<Rightarrow> world \<Rightarrow> boot_target \<times> world" where
  "check_magic_key P w =
     (let wait_ms = magic_key_wait_ms w in
      case poll_key (ReadKeyStroke_result w) wait_ms 0 (EFI_NOT_READY, 0) [ConIn_Reset] of
        (i, (ret, ScanCode), es) \<Rightarrow>
          let w = w\<lparr>effects := effects w @ es\<rparr> in
          if EFI_ERROR ret then (NORMAL_BOOT, w)
          else if ui_keycode_to_event P ScanCode \<noteq> MAGIC_KEY then (NORMAL_BOOT, w)
          else if USERFASTBOOT P
          then (if key_held w then (FASTBOOT, w) else (RECOVERY, w))
          else (if key_held w then (FASTBOOT, w) else (NORMAL_BOOT, w)))"

subsection \<open>Power\<close>

definition check_battery_inserted :: "world \<Rightarrow> boot_target \<times> world" where
  "check_battery_inserted w =
     (if wake_source w = WAKE_BATTERY_INSERTED then (POWER_OFF, w) else (NORMAL_BOOT, w))"

definition check_charge_mode :: "world \<Rightarrow> boot_target \<times> world" where
  "check_charge_mode w =
     (if \<not> off_mode_charge w then (NORMAL_BOOT, w)
      else if wake_source w = WAKE_USB_CHARGER_INSERTED
              \<or> wake_source w = WAKE_ACDC_CHARGER_INSERTED
      then (CHARGER, w)
      else (NORMAL_BOOT, w))"

definition check_battery :: "world \<Rightarrow> boot_target \<times> world" where
  "check_battery w =
     (if battery_below_boot_OS_threshold w
      then (if charger_plugged_in w then (CHARGER, w) else (POWER_OFF, w))
      else (NORMAL_BOOT, w))"

section \<open>The bootloader control block\<close>

text \<open>
  Modelled from the spec: \<open>struct bootloader_message\<close> is declared in a header that is
  not part of the sources.  It is a record of 64 bytes, two fields of 32 characters.
\<close>

record bootloader_message =
  command :: "CHAR8 list"
  status :: "CHAR8 list"

definition bootloader_message_of :: "CHAR8 list \<Rightarrow> bootloader_message" where
  "bootloader_message_of bytes =
     \<lparr>command = take 32 bytes, status = take 32 (drop 32 bytes)\<rparr>"

definition bytes_of :: "bootloader_message \<Rightarrow> CHAR8 list" where
  "bytes_of bcb = command bcb @ status bcb"

text \<open>
  \<open>read_bcb\<close>: the partition lookup, the read of \<open>sizeof(*bcb)\<close> bytes at the start of
  the partition, and the two terminators.  \<open>Inl\<close> is the error returned; the caller's
  structure is then not to be used.
\<close>

definition read_bcb :: "world \<Rightarrow> efi_status + bootloader_message" where
  "read_bcb w =
     (if EFI_ERROR (misc_partition_ret w) then Inl EFI_INVALID_PARAMETER
      else if EFI_ERROR (misc_ReadDisk_ret w) then Inl (misc_ReadDisk_ret w)
      else
        let bcb = bootloader_message_of (misc_data w);
            bcb = bcb\<lparr>command := (command bcb)[31 := 0]\<rparr>;
            bcb = bcb\<lparr>status := (status bcb)[31 := 0]\<rparr>
        in Inr bcb)"

text \<open>
  \<open>write_bcb\<close>: a write that does not fail replaces the 64 bytes at the start of the
  partition; a failed lookup or write leaves them.
\<close>

definition write_bcb :: "bootloader_message \<Rightarrow> world \<Rightarrow> efi_status \<times> world" where
  "write_bcb bcb w =
     (if EFI_ERROR (misc_partition_ret w) then (EFI_INVALID_PARAMETER, w)
      else if EFI_ERROR (misc_WriteDisk_ret w) then (misc_WriteDisk_ret w, w)
      else (EFI_SUCCESS, w\<lparr>misc_data := bytes_of bcb @ drop 64 (misc_data w)\<rparr>))"

subsection \<open>Strings\<close>

text \<open>
  The characters of a string up to its terminator, and the routines of the EFI
  library that work on them: \<open>StrDuplicate\<close> copies a string into a new allocation
  (a null pointer, here \<open>None\<close>, when the pool is exhausted), \<open>StrLen\<close> counts the
  characters.

  Modelled from the spec: \<open>stra_to_str\<close> is defined outside the sources.  The target
  of a command \<open>boot-<target>\<close> is the rest of the command string; the routine widens
  that 8-bit string into a newly allocated 16-bit string, and returns a null pointer
  when the pool is exhausted.
\<close>

definition cstr :: "'a::zero list \<Rightarrow> 'a list" where
  "cstr s = takeWhile (\<lambda>c. c \<noteq> 0) s"

definition stra_to_str :: "bool \<Rightarrow> CHAR8 list \<Rightarrow> CHAR16 list option" where
  "stra_to_str pool s = (if pool then Some (map ucast (cstr s)) else None)"

definition StrDuplicate :: "bool \<Rightarrow> CHAR16 list \<Rightarrow> CHAR16 list option" where
  "StrDuplicate pool s = (if pool then Some (cstr s) else None)"

definition StrLen :: "CHAR16 list \<Rightarrow> nat" where
  "StrLen s = length (cstr s)"

definition backslash :: CHAR16 where
  "backslash = 0x5C"

subsection \<open>The BCB check\<close>

text \<open>
  The second half of \<open>check_bcb\<close>, after the record has been written back: what the
  target string selects.
\<close>

definition bcb_target :: "platform \<Rightarrow> CHAR16 list \<Rightarrow> world \<Rightarrow> boot_target \<times> world" where
  "bcb_target P target w =
     (if deref target = backslash
      then
        if \<not> file_exists w target then (NORMAL_BOOT, w)
        else
          let len = StrLen target in
          if len > 4
          then
            let w = w\<lparr>target_path := StrDuplicate (StrDuplicate_alloc w) target\<rparr> in
            if StrCmp (drop (len - 4) target) (str16 ''.efi'') = 0
               \<or> StrCmp (drop (len - 4) target) (str16 ''.EFI'') = 0
            then (ESP_EFI_BINARY, w)
            else (ESP_BOOTIMAGE, w)
          else (NORMAL_BOOT, w)
      else
        let t = name_to_boot_target P target in
        if t \<noteq> UNKNOWN_TARGET then (t, w) else (NORMAL_BOOT, w))"

definition check_bcb :: "platform \<Rightarrow> world \<Rightarrow> boot_target \<times> world" where
  "check_bcb P w =
     (let w = w\<lparr>oneshot := False, target_path := None\<rparr> in
      case read_bcb w of
        Inl ret \<Rightarrow> (NORMAL_BOOT, w)
      | Inr bcb \<Rightarrow>
          let bcb = bcb\<lparr>status := (status bcb)[0 := 0]\<rparr> in
          case
            (if strncmpa (command bcb) (str8 ''boot-'') 5 = 0
             then (stra_to_str (stra_to_str_alloc w) (drop 5 (command bcb)), bcb, w)
             else if strncmpa (command bcb) (str8 ''bootonce-'') 9 = 0
             then (stra_to_str (stra_to_str_alloc w) (drop 9 (command bcb)),
                   bcb\<lparr>command := (command bcb)[0 := 0]\<rparr>,
                   w\<lparr>oneshot := True\<rparr>)
             else (None, bcb, w))
          of (target, bcb, w) \<Rightarrow>
            let w = snd (write_bcb bcb w) in
            case target of
              None \<Rightarrow> (NORMAL_BOOT, w)
            | Some target \<Rightarrow> bcb_target P target w)"

section \<open>The one-shot variable\<close>

text \<open>
  Modelled from the spec: \<open>get_efi_variable_str\<close> and \<open>del_efi_variable\<close> are defined
  outside the sources.  The first returns the string stored in the variable, or a
  null pointer when there is none; the second removes the variable.
\<close>

definition check_loader_entry_one_shot :: "platform \<Rightarrow> world \<Rightarrow> boot_target \<times> world" where
  "check_loader_entry_one_shot P w =
     (let target = LoaderEntryOneShot w;
          w = w\<lparr>LoaderEntryOneShot := None\<rparr>
      in case target of
           None \<Rightarrow> (NORMAL_BOOT, w)
         | Some target \<Rightarrow>
             let ret = name_to_boot_target P target in
             if ret = UNKNOWN_TARGET then (NORMAL_BOOT, w)
             else if ret = CHARGER \<and> \<not> off_mode_charge w then (POWER_OFF, w)
             else (ret, w))"

section \<open>Choosing the boot target\<close>

definition choose_boot_target :: "platform \<Rightarrow> world \<Rightarrow> boot_target \<times> world" where
  "choose_boot_target P w =
     (let w = w\<lparr>target_path := None, target_address := 0, oneshot := True\<rparr> in
      case check_watchdog P (add_effect (Bootlogic ''Check watchdog...'') w) of (ret, w) \<Rightarrow>
      if ret \<noteq> NORMAL_BOOT then (ret, w) else
      case check_command_line P (add_effect (Bootlogic ''Check osloader command line...'') w)
      of (ret, w) \<Rightarrow>
      if ret \<noteq> NORMAL_BOOT then (ret, w) else
      case check_fastboot_sentinel (add_effect (Bootlogic ''Check fastboot sentinel...'') w)
      of (ret, w) \<Rightarrow>
      if ret \<noteq> NORMAL_BOOT then (ret, w) else
      case check_magic_key P (add_effect (Bootlogic ''Check magic key...'') w) of (ret, w) \<Rightarrow>
      if ret \<noteq> NORMAL_BOOT then (ret, w) else
      case check_battery_inserted (add_effect (Bootlogic ''Check battery insertion...'') w)
      of (ret, w) \<Rightarrow>
      if ret \<noteq> NORMAL_BOOT then (ret, w) else
      case check_bcb P (add_effect (Bootlogic ''Check BCB...'') w) of (ret, w) \<Rightarrow>
      if ret \<noteq> NORMAL_BOOT then (ret, w) else
      case check_loader_entry_one_shot P (add_effect (Bootlogic ''Check reboot target...'') w)
      of (ret, w) \<Rightarrow>
      if ret \<noteq> NORMAL_BOOT then (ret, w) else
      case check_battery (add_effect (Bootlogic ''Check battery level...'') w) of (ret, w) \<Rightarrow>
      let w = (if ret = POWER_OFF then add_effect (Display_low_battery 3) w else w) in
      if ret \<noteq> NORMAL_BOOT then (ret, w) else
      check_charge_mode (add_effect (Bootlogic ''Check charger insertion...'') w))"

subsection \<open>The order of the checks, as a list\<close>

text \<open>
  The nine checks in the order the decision is specified to try them, each with the
  line it logs.  The low-battery check comes with the notice shown when it decides
  to power off.
\<close>

type_synonym boot_check = "world \<Rightarrow> boot_target \<times> world"

definition with_low_battery_notice :: "boot_check \<Rightarrow> boot_check" where
  "with_low_battery_notice check w =
     (case check w of
        (ret, w') \<Rightarrow>
          (ret, if ret = POWER_OFF then add_effect (Display_low_battery 3) w' else w'))"

definition boot_checks :: "platform \<Rightarrow> (string \<times> boot_check) list" where
  "boot_checks P =
     [(''Check watchdog...'', check_watchdog P),
      (''Check osloader command line...'', check_command_line P),
      (''Check fastboot sentinel...'', check_fastboot_sentinel),
      (''Check magic key...'', check_magic_key P),
      (''Check battery insertion...'', check_battery_inserted),
      (''Check BCB...'', check_bcb P),
      (''Check reboot target...'', check_loader_entry_one_shot P),
      (''Check battery level...'', with_low_battery_notice check_battery),
      (''Check charger insertion...'', check_charge_mode)]"

text \<open>
  Running a list of checks as the spec words it: top to bottom, the first result
  other than \<open>NORMAL_BOOT\<close> ends the run, and \<open>NORMAL_BOOT\<close> is the result when every
  check defers.  \<open>evaluated\<close> counts the checks that were run.
\<close>

fun first_decisive :: "(string \<times> boot_check) list \<Rightarrow> world \<Rightarrow> boot_target \<times> world" where
  "first_decisive [] w = (NORMAL_BOOT, w)"
| "first_decisive ((name, check) # rest) w =
     (case check (add_effect (Bootlogic name) w) of
        (ret, w') \<Rightarrow> if ret \<noteq> NORMAL_BOOT then (ret, w') else first_decisive rest w')"

fun evaluated :: "(string \<times> boot_check) list \<Rightarrow> world \<Rightarrow> nat" where
  "evaluated [] w = 0"
| "evaluated ((name, check) # rest) w =
     (case check (add_effect (Bootlogic name) w) of
        (ret, w') \<Rightarrow> if ret \<noteq> NORMAL_BOOT then 1 else Suc (evaluated rest w'))"

text \<open>The logged names of the checks among the effects.\<close>

fun checks_logged :: "effect list \<Rightarrow> string list" where
  "checks_logged [] = []"
| "checks_logged (Bootlogic name # es) = name # checks_logged es"
| "checks_logged (e # es) = checks_logged es"

section \<open>Boot images\<close>

text \<open>
  Modelled from the spec: \<open>struct boot_img_hdr\<close>, \<open>BOOT_MAGIC\<close> and \<open>BOOT_MAGIC_SIZE\<close>
  are declared in a header that is not part of the sources.  The image begins with
  the fixed 8-byte Android boot magic; the header fields below are the ones the
  modelled code reads.
\<close>

record boot_img_hdr =
  magic :: "CHAR8 list"
  kernel_size :: "32 word"
  ramdisk_size :: "32 word"
  second_size :: "32 word"
  page_size :: "32 word"

definition BOOT_MAGIC :: "CHAR8 list" where
  "BOOT_MAGIC = str8 ''ANDROID!''"

definition BOOT_MAGIC_SIZE :: nat where
  "BOOT_MAGIC_SIZE = 8"

definition pagealign :: "boot_img_hdr \<Rightarrow> 32 word \<Rightarrow> 32 word" where
  "pagealign hdr blob_size =
     (let page_mask = page_size hdr - 1 in (blob_size + page_mask) AND (NOT page_mask))"

text \<open>The sum is computed in 32 bits and then widened to \<open>UINTN\<close>.\<close>

definition bootimage_size :: "boot_img_hdr \<Rightarrow> nat" where
  "bootimage_size aosp_header =
     unat (pagealign aosp_header (kernel_size aosp_header)
           + pagealign aosp_header (ramdisk_size aosp_header)
           + pagealign aosp_header (second_size aosp_header)
           + page_size aosp_header)"

subsection \<open>Loading from a partition\<close>

text \<open>
  What the disk answers to \<open>android_image_load_partition\<close>: the status of the lookup
  and of the two reads, the header the first read delivers, whether the pool has
  room for the image, and the bytes a read of a given size delivers.
  \<open>BOOT_SIGNATURE_MAX_SIZE\<close> is a macro defined outside the sources.
\<close>

record partition_io =
  gpt_get_partition_by_label_ret :: efi_status
  ReadDisk_header_ret :: efi_status
  ReadDisk_header :: boot_img_hdr
  BOOT_SIGNATURE_MAX_SIZE :: nat
  AllocatePool_image :: bool
  ReadDisk_image_ret :: efi_status
  ReadDisk_image :: "32 word \<Rightarrow> CHAR8 list"

text \<open>The result is the status and the value left in \<open>*bootimage_p\<close> (\<open>None\<close> is null).\<close>

definition android_image_load_partition ::
  "partition_io \<Rightarrow> efi_status \<times> CHAR8 list option" where
  "android_image_load_partition io =
     (if EFI_ERROR (gpt_get_partition_by_label_ret io)
      then (gpt_get_partition_by_label_ret io, None)
      else if EFI_ERROR (ReadDisk_header_ret io) then (ReadDisk_header_ret io, None)
      else
        let aosp_header = ReadDisk_header io in
        if strncmpa BOOT_MAGIC (magic aosp_header) BOOT_MAGIC_SIZE \<noteq> 0
        then (EFI_INVALID_PARAMETER, None)
        else
          let img_size = (of_nat (bootimage_size aosp_header + BOOT_SIGNATURE_MAX_SIZE io)
                           :: 32 word)
          in
          if \<not> AllocatePool_image io then (EFI_OUT_OF_RESOURCES, None)
          else if EFI_ERROR (ReadDisk_image_ret io) then (ReadDisk_image_ret io, None)
          else (EFI_SUCCESS, Some (ReadDisk_image io img_size)))"

subsection \<open>Loading from a file\<close>

text \<open>
  What the firmware answers to \<open>android_image_load_file\<close>, call by call.  A read
  delivers a status and the contents of the buffer afterwards.
\<close>

record file_io =
  FileDevicePath_ok :: bool
  HandleProtocol_ret :: efi_status
  OpenVolume_ret :: efi_status
  Open_ret :: efi_status
  AllocatePool_fileinfo :: bool
  GetInfo_ret :: efi_status
  AllocatePool_fileinfo2 :: bool
  GetInfo_ret2 :: efi_status
  AllocatePool_bootimage :: bool
  Read_ret :: efi_status
  Read_buffer :: "CHAR8 list"
  AllocatePool_bootimage2 :: bool
  Read_ret2 :: efi_status
  Read_buffer2 :: "CHAR8 list"

text \<open>
  How the function leaves the file, and how it ends: it returns a status with the
  value left in \<open>*bootimage_p\<close>, or it reads the header through a null pointer (the
  second allocation of the image buffer is not checked).
\<close>

datatype file_end = Not_opened | Left_open | Close_called | Delete_called

datatype load_file_result =
    Returned efi_status "CHAR8 list option" file_end
  | Null_pointer_read

text \<open>The code from the label \<open>out\<close> on.\<close>

definition load_file_out ::
  "bool \<Rightarrow> efi_status \<Rightarrow> CHAR8 list option \<Rightarrow> load_file_result" where
  "load_file_out delete ret bootimage =
     Returned ret (if ret = EFI_SUCCESS then bootimage else None)
       (if delete then Delete_called else Close_called)"

definition android_image_load_file :: "file_io \<Rightarrow> bool \<Rightarrow> load_file_result" where
  "android_image_load_file io delete =
     (if \<not> FileDevicePath_ok io then Returned EFI_INVALID_PARAMETER None Not_opened
      else if EFI_ERROR (HandleProtocol_ret io) then Returned (HandleProtocol_ret io) None Not_opened
      else if EFI_ERROR (OpenVolume_ret io) then Returned (OpenVolume_ret io) None Not_opened
      else if EFI_ERROR (Open_ret io) then Returned (Open_ret io) None Not_opened
      else if \<not> AllocatePool_fileinfo io then Returned EFI_OUT_OF_RESOURCES None Left_open
      else if GetInfo_ret io = EFI_BUFFER_TOO_SMALL \<and> \<not> AllocatePool_fileinfo2 io
      then Returned EFI_OUT_OF_RESOURCES None Left_open
      else
        let ret = (if GetInfo_ret io = EFI_BUFFER_TOO_SMALL then GetInfo_ret2 io
                   else GetInfo_ret io)
        in
        if EFI_ERROR ret then load_file_out delete ret None
        else if \<not> AllocatePool_bootimage io
        then load_file_out delete EFI_OUT_OF_RESOURCES None
        else
          case (if Read_ret io = EFI_BUFFER_TOO_SMALL
                then (Read_ret2 io,
                      if AllocatePool_bootimage2 io then Some (Read_buffer2 io) else None)
                else (Read_ret io, Some (Read_buffer io)))
          of (ret, bootimage) \<Rightarrow>
            if EFI_ERROR ret then load_file_out delete ret bootimage
            else
              case bootimage of
                None \<Rightarrow> Null_pointer_read
              | Some buffer \<Rightarrow>
                  if strncmpa BOOT_MAGIC buffer BOOT_MAGIC_SIZE \<noteq> 0
                  then load_file_out delete EFI_INVALID_PARAMETER bootimage
                  else load_file_out delete ret bootimage)"

text \<open>
  The buffer the magic comparison of \<open>android_image_load_file\<close> looks at, when every
  step before it succeeds (\<open>None\<close> when one of them fails).
\<close>

definition file_buffer_read :: "file_io \<Rightarrow> CHAR8 list option" where
  "file_buffer_read io =
     (if FileDevicePath_ok io \<and> \<not> EFI_ERROR (HandleProtocol_ret io)
         \<and> \<not> EFI_ERROR (OpenVolume_ret io) \<and> \<not> EFI_ERROR (Open_ret io)
         \<and> AllocatePool_fileinfo io
         \<and> (if GetInfo_ret io = EFI_BUFFER_TOO_SMALL
             then AllocatePool_fileinfo2 io \<and> \<not> EFI_ERROR (GetInfo_ret2 io)
             else \<not> EFI_ERROR (GetInfo_ret io))
         \<and> AllocatePool_bootimage io
      then (if Read_ret io = EFI_BUFFER_TOO_SMALL
            then (if AllocatePool_bootimage2 io \<and> \<not> EFI_ERROR (Read_ret2 io)
                  then Some (Read_buffer2 io) else None)
            else if EFI_ERROR (Read_ret io) then None
            else Some (Read_buffer io))
      else None)"

section \<open>Starting a boot image\<close>

text \<open>
  The fields of the kernel's setup header (inside \<open>struct boot_params\<close>, one page into
  the buffer) that the start-up code reads.
\<close>

record setup_header =
  setup_secs :: "8 word"
  signature :: "16 word"
  header :: "32 word"
  version :: "16 word"
  xloadflags :: "16 word"
  relocatable_kernel :: "8 word"
  ramdisk_max :: "32 word"
  init_size :: "32 word"

text \<open>
  The buffer handed over, seen through the two structures laid over it, and the
  number of bytes it holds.
\<close>

record bootimage =
  aosp_header :: boot_img_hdr
  hdr :: setup_header
  buffer_bytes :: nat

text \<open>
  What the later stages meet: the status with which the command line is built
  (\<open>setup_command_line\<close> allocates and formats strings; only its status matters
  here), and the status and address of each allocation.
\<close>

record firmware =
  setup_command_line_ret :: efi_status
  emalloc_ramdisk :: "efi_status \<times> nat"
  allocate_pages_kernel_ret :: efi_status
  emalloc_kernel_ret :: efi_status
  allocate_pages_boot_params_ret :: efi_status

text \<open>
  The function either returns a status or jumps into the kernel, which does not
  return.
\<close>

datatype start_result = Start_returned efi_status | Kernel_entered | Copy_outside_memory

definition EFI_SIZE_TO_PAGES :: "nat \<Rightarrow> nat" where
  "EFI_SIZE_TO_PAGES a = a div 4096 + (if a mod 4096 \<noteq> 0 then 1 else 0)"

definition setup_ramdisk :: "firmware \<Rightarrow> bootimage \<Rightarrow> efi_status" where
  "setup_ramdisk fw img =
     (let rsize = ramdisk_size (aosp_header img) in
      if rsize = 0 then EFI_SUCCESS
      else case emalloc_ramdisk fw of
        (ret, ramdisk_addr) \<Rightarrow>
          if EFI_ERROR ret then ret
          else if ramdisk_addr > unat (ramdisk_max (hdr img)) then EFI_OUT_OF_RESOURCES
          else EFI_SUCCESS)"

text \<open>
  \<open>handover_kernel\<close>.  The number of setup sectors is a \<open>UINT8\<close> and the sizes are
  \<open>UINT32\<close>: both the increment and the subtraction wrap.  The kernel is copied from
  the buffer, behind the header page and the setup code, into the pages allocated
  for \<open>init_size\<close> bytes; a copy that reads behind the buffer or writes behind the
  allocation is \<open>Copy_outside_memory\<close>.
\<close>

definition handover_kernel :: "firmware \<Rightarrow> bootimage \<Rightarrow> start_result" where
  "handover_kernel fw img =
     (let koffset = page_size (aosp_header img);
          setup_sectors = setup_secs (hdr img) + 1;
          setup_size = (ucast setup_sectors :: 32 word) * 512;
          ksize = kernel_size (aosp_header img) - setup_size
      in
      if EFI_ERROR (allocate_pages_kernel_ret fw) \<and> EFI_ERROR (emalloc_kernel_ret fw)
      then Start_returned (emalloc_kernel_ret fw)
      else if unat koffset + unat setup_size + unat ksize > buffer_bytes img
              \<or> unat ksize > EFI_SIZE_TO_PAGES (unat (init_size (hdr img))) * 4096
      then Copy_outside_memory
      else if EFI_ERROR (allocate_pages_boot_params_ret fw)
      then Start_returned (allocate_pages_boot_params_ret fw)
      else Kernel_entered)"

definition android_image_start_buffer ::
  "platform \<Rightarrow> firmware \<Rightarrow> bootimage option \<Rightarrow> start_result" where
  "android_image_start_buffer P fw bootimage =
     (case bootimage of
        None \<Rightarrow> Start_returned EFI_INVALID_PARAMETER
      | Some img \<Rightarrow>
          if strncmpa BOOT_MAGIC (magic (aosp_header img)) BOOT_MAGIC_SIZE \<noteq> 0
          then Start_returned EFI_INVALID_PARAMETER
          else if signature (hdr img) \<noteq> 0xAA55
          then Start_returned EFI_INVALID_PARAMETER
          else if header (hdr img) \<noteq> SETUP_HDR P
          then Start_returned EFI_INVALID_PARAMETER
          else if version (hdr img) < 0x20c
          then Start_returned EFI_INVALID_PARAMETER
          else if (if LP64 P
                   then xloadflags (hdr img) AND XLF_EFI_HANDOVER_64 P = 0
                   else xloadflags (hdr img) AND XLF_EFI_HANDOVER_32 P = 0)
          then Start_returned EFI_INVALID_PARAMETER
          else if relocatable_kernel (hdr img) = 0
          then Start_returned EFI_INVALID_PARAMETER
          else if EFI_ERROR (setup_command_line_ret fw)
          then Start_returned (setup_command_line_ret fw)
          else if EFI_ERROR (setup_ramdisk fw img)
          then Start_returned (setup_ramdisk fw img)
          else handover_kernel fw img)"

section \<open>Example inputs\<close>

definition example_platform :: platform where
  "example_platform =
     \<lparr>USERFASTBOOT = False, USER = False, LP64 = True,
      name_to_boot_target = (\<lambda>n.
         if n = str16 ''recovery'' then RECOVERY
         else if n = str16 ''fastboot'' then FASTBOOT
         else if n = str16 ''charging'' then CHARGER
         else UNKNOWN_TARGET),
      strtoul16 = (\<lambda>s. 0),
      ui_keycode_to_event = (\<lambda>c. if c = 2 then EV_DOWN else EV_OTHER),
      SETUP_HDR = 0x53726448,
      XLF_EFI_HANDOVER_32 = 4,
      XLF_EFI_HANDOVER_64 = 8\<rparr>"

definition example_time_ref :: efi_time where
  "example_time_ref = \<lparr>Year = 2015, Month = 3, Day = 1, Hour = 12, Minute = 0, Second = 0\<rparr>"

definition example_now :: efi_time where
  "example_now = \<lparr>Year = 2015, Month = 3, Day = 1, Hour = 13, Minute = 0, Second = 0\<rparr>"

text \<open>
  A device that was reset by the kernel watchdog an hour after the stored time
  reference, with two resets counted so far, a timeout variable of 5000 ms, no key
  pressed, the command \<open>bootonce-recovery\<close> in the control block and \<open>charging\<close> in
  the one-shot variable.
\<close>

definition example_world :: world where
  "example_world =
     \<lparr>target_address = 0, target_path = None, oneshot = False, effects = [],
      crash_event_menu = True,
      get_watchdog_status_ret = EFI_SUCCESS,
      watchdog_counter = 2,
      watchdog_time_reference = example_time_ref,
      reset_source = RESET_KERNEL_WATCHDOG,
      reset_watchdog_status_ret = EFI_SUCCESS,
      set_watchdog_counter_ret = EFI_SUCCESS,
      set_watchdog_time_reference_ret = EFI_SUCCESS,
      GetTime_ret = EFI_SUCCESS,
      current_time = example_now,
      crash_prompt_choice = RECOVERY,
      get_argv_ret = EFI_SUCCESS,
      argv = [],
      file_exists = (\<lambda>path. False),
      MagicKeyTimeout = Some 5000,
      ReadKeyStroke_result = (\<lambda>i. (EFI_NOT_READY, 0)),
      key_held = False,
      wake_source = WAKE_POWER_BUTTON_PRESSED,
      off_mode_charge = False,
      battery_below_boot_OS_threshold = False,
      charger_plugged_in = False,
      misc_partition_ret = EFI_SUCCESS,
      misc_ReadDisk_ret = EFI_SUCCESS,
      misc_WriteDisk_ret = EFI_SUCCESS,
      misc_data = str8 ''bootonce-recovery'' @ replicate 47 0,
      stra_to_str_alloc = True,
      StrDuplicate_alloc = True,
      LoaderEntryOneShot = Some (str16 ''charging'')\<rparr>"

text \<open>A boot partition and a file whose first byte is not the \<open>A\<close> of the magic.\<close>

definition example_partition_io :: partition_io where
  "example_partition_io =
     \<lparr>gpt_get_partition_by_label_ret = EFI_SUCCESS,
      ReadDisk_header_ret = EFI_SUCCESS,
      ReadDisk_header = \<lparr>magic = str8 ''BNDROID!'', kernel_size = 0x500000,
                         ramdisk_size = 0x100000, second_size = 0, page_size = 2048\<rparr>,
      BOOT_SIGNATURE_MAX_SIZE = 4096,
      AllocatePool_image = True,
      ReadDisk_image_ret = EFI_SUCCESS,
      ReadDisk_image = (\<lambda>n. str8 ''BNDROID!'')\<rparr>"

definition example_file_io :: file_io where
  "example_file_io =
     \<lparr>FileDevicePath_ok = True,
      HandleProtocol_ret = EFI_SUCCESS,
      OpenVolume_ret = EFI_SUCCESS,
      Open_ret = EFI_SUCCESS,
      AllocatePool_fileinfo = True,
      GetInfo_ret = EFI_BUFFER_TOO_SMALL,
      AllocatePool_fileinfo2 = True,
      GetInfo_ret2 = EFI_SUCCESS,
      AllocatePool_bootimage = True,
      Read_ret = EFI_SUCCESS,
      Read_buffer = str8 ''BNDROID!'' @ replicate 8 0,
      AllocatePool_bootimage2 = True,
      Read_ret2 = EFI_SUCCESS,
      Read_buffer2 = []\<rparr>"

text \<open>A well-formed image of a relocatable 64-bit kernel, and one of protocol 2.11.\<close>

definition example_bootimage :: bootimage where
  "example_bootimage =
     \<lparr>aosp_header = \<lparr>magic = str8 ''ANDROID!'', kernel_size = 0x500000,
                      ramdisk_size = 0, second_size = 0, page_size = 2048\<rparr>,
      hdr = \<lparr>setup_secs = 30, signature = 0xAA55, header = 0x53726448, version = 0x20c,
             xloadflags = 8, relocatable_kernel = 1, ramdisk_max = 0x7fffffff,
             init_size = 0x1000000\<rparr>,
      buffer_bytes = 0x501800\<rparr>"

text \<open>An image that declares a kernel smaller than its own setup code.\<close>

definition example_short_bootimage :: bootimage where
  "example_short_bootimage =
     example_bootimage\<lparr>aosp_header := (aosp_header example_bootimage)\<lparr>kernel_size := 512\<rparr>\<rparr>"

definition example_old_bootimage :: bootimage where
  "example_old_bootimage =
     example_bootimage\<lparr>hdr := (hdr example_bootimage)\<lparr>version := 0x20b\<rparr>\<rparr>"

definition example_firmware :: firmware where
  "example_firmware =
     \<lparr>setup_command_line_ret = EFI_SUCCESS,
      emalloc_ramdisk = (EFI_SUCCESS, 0x1000000),
      allocate_pages_kernel_ret = EFI_SUCCESS,
      emalloc_kernel_ret = EFI_SUCCESS,
      allocate_pages_boot_params_ret = EFI_SUCCESS\<rparr>"

text \<open>
  The same device with a control block that holds no terminator: 64 letters \<open>A\<close>.
\<close>

definition example_world_unterminated :: world where
  "example_world_unterminated = example_world\<lparr>misc_data := replicate 64 0x41\<rparr>"

text \<open>The same device with the persistent command \<open>boot-recovery\<close>.\<close>

definition example_world_boot :: world where
  "example_world_boot = example_world\<lparr>misc_data := str8 ''boot-recovery'' @ replicate 51 0\<rparr>"

text \<open>
  One reset counted at noon of March 1st, and a kernel watchdog reset at noon of
  March 2nd.
\<close>

definition example_world_next_day :: world where
  "example_world_next_day =
     example_world\<lparr>watchdog_counter := 1,
                   current_time := example_time_ref\<lparr>Day := 2\<rparr>\<rparr>"

text \<open>The menu for crashes switched off and the sentinel file on the system partition.\<close>

definition example_world_sentinel :: world where
  "example_world_sentinel =
     example_world\<lparr>crash_event_menu := False,
                   file_exists := (\<lambda>path. path = FASTBOOT_SENTINEL)\<rparr>"

text \<open>The same device with the persistent command \<open>boot-charging\<close>.\<close>

definition example_world_boot_charging :: world where
  "example_world_boot_charging =
     example_world\<lparr>misc_data := str8 ''boot-charging'' @ replicate 51 0\<rparr>"

section \<open>Properties\<close>

subsection \<open>Label comparison\<close>

lemma StrCmp_recovery_recovery: "StrCmp (str16 ''/recovery'') (str16 ''/recovery'') = 0"
  by (simp add: str16_def)

lemma StrCmp_boot_recovery: "StrCmp (str16 ''/boot'') (str16 ''/recovery'') \<noteq> 0"
  by (simp add: str16_def)

lemma StrCmp_fastboot_recovery: "StrCmp (str16 ''/fastboot'') (str16 ''/recovery'') \<noteq> 0"
  by (simp add: str16_def)

text \<open>
  C4.  When the verifier accepts the image and the label it extracts is \<open>/recovery\<close>,
  \<open>validate_bootimage\<close> passes for the requested target \<open>RECOVERY\<close>, passes for
  \<open>NORMAL_BOOT\<close> (the second expected label, kept for multi-stage updates), and is
  denied for \<open>CHARGER\<close>; over all requested targets these two are the only ones that
  pass.
\<close>

theorem validate_bootimage_recovery_label:
  assumes "\<not> EFI_ERROR ret"
  shows "validate_bootimage P RECOVERY (ret, str16 ''/recovery'') = EFI_SUCCESS
       \<and> validate_bootimage P NORMAL_BOOT (ret, str16 ''/recovery'') = EFI_SUCCESS
       \<and> validate_bootimage P CHARGER (ret, str16 ''/recovery'') = EFI_ACCESS_DENIED
       \<and> validate_bootimage P t (ret, str16 ''/recovery'') =
           (if t = NORMAL_BOOT \<or> t = RECOVERY then EFI_SUCCESS else EFI_ACCESS_DENIED)"
  using assms
  by (cases t)
     (simp_all add: validate_bootimage_def StrCmp_recovery_recovery
        StrCmp_boot_recovery StrCmp_fastboot_recovery)

theorem validate_bootimage_recovery_label_witness:
  "\<not> EFI_ERROR EFI_SUCCESS
   \<and> validate_bootimage example_platform RECOVERY (EFI_SUCCESS, str16 ''/recovery'') = EFI_SUCCESS
   \<and> validate_bootimage example_platform NORMAL_BOOT (EFI_SUCCESS, str16 ''/recovery'') = EFI_SUCCESS
   \<and> validate_bootimage example_platform CHARGER (EFI_SUCCESS, str16 ''/recovery'')
       = EFI_ACCESS_DENIED"
  using validate_bootimage_recovery_label [of EFI_SUCCESS example_platform CHARGER]
  by simp

subsection \<open>The magic comparison\<close>

lemma strncmpa_eq_0_iff:
  "0 \<notin> set s1 \<Longrightarrow> length s1 = n \<Longrightarrow> (strncmpa s1 s2 n = 0) = (take n s2 = s1)"
proof (induction s1 arbitrary: s2 n)
  case Nil
  then show ?case by simp
next
  case (Cons c s1)
  then obtain m where n: "n = Suc m" and m: "length s1 = m" by (cases n) auto
  from Cons.prems have c: "c \<noteq> 0" and z: "0 \<notin> set s1" by auto
  show ?case
  proof (cases s2)
    case Nil
    with c n show ?thesis by (simp add: uint_0_iff)
  next
    case (Cons d s2')
    show ?thesis
    proof (cases "c = d")
      case True
      with Cons c n Cons.IH [OF z m, of s2'] show ?thesis by simp
    next
      case False
      with Cons c n show ?thesis by (simp add: word_uint_eq_iff)
    qed
  qed
qed

lemma BOOT_MAGIC_chars: "0 \<notin> set BOOT_MAGIC" "length BOOT_MAGIC = 8"
  by (simp_all add: BOOT_MAGIC_def str8_def)

lemma magic_check: "(strncmpa BOOT_MAGIC s BOOT_MAGIC_SIZE = 0) = (take 8 s = BOOT_MAGIC)"
  using strncmpa_eq_0_iff [of BOOT_MAGIC 8 s] by (simp add: BOOT_MAGIC_chars BOOT_MAGIC_SIZE_def)

subsection \<open>The loaders\<close>

lemma load_partition_bad_magic:
  assumes "\<not> EFI_ERROR (gpt_get_partition_by_label_ret io)"
    and "\<not> EFI_ERROR (ReadDisk_header_ret io)"
    and "take 8 (magic (ReadDisk_header io)) \<noteq> BOOT_MAGIC"
  shows "android_image_load_partition io = (EFI_INVALID_PARAMETER, None)"
  using assms by (simp add: android_image_load_partition_def magic_check)

lemma load_partition_pointer:
  assumes "android_image_load_partition io = (r, Some buf)"
  shows "take 8 (magic (ReadDisk_header io)) = BOOT_MAGIC \<and> r = EFI_SUCCESS"
  using assms
  by (auto simp: android_image_load_partition_def magic_check Let_def split: if_splits)

lemma load_file_bad_magic:
  assumes "file_buffer_read io = Some buf" and "take 8 buf \<noteq> BOOT_MAGIC"
  shows "android_image_load_file io delete =
           Returned EFI_INVALID_PARAMETER None (if delete then Delete_called else Close_called)"
  using assms
  by (auto simp: android_image_load_file_def file_buffer_read_def load_file_out_def
        magic_check Let_def split: if_splits)

lemma load_file_pointer:
  assumes "android_image_load_file io delete = Returned r (Some buf) e"
  shows "take 8 buf = BOOT_MAGIC \<and> r = EFI_SUCCESS"
  using assms
  by (auto simp: android_image_load_file_def load_file_out_def magic_check Let_def
        split: if_splits option.splits prod.splits)

text \<open>
  C7.  A boot image whose first 8 bytes are not the Android boot magic is rejected by
  both loaders with \<open>EFI_INVALID_PARAMETER\<close> and a null output pointer: by the
  partition loader once the partition is found and its header is read, by the file
  loader once the file is read into the buffer.
\<close>

theorem loaders_reject_bad_magic:
  "(\<not> EFI_ERROR (gpt_get_partition_by_label_ret pio) \<and> \<not> EFI_ERROR (ReadDisk_header_ret pio)
      \<and> take 8 (magic (ReadDisk_header pio)) \<noteq> BOOT_MAGIC
     \<longrightarrow> android_image_load_partition pio = (EFI_INVALID_PARAMETER, None))
   \<and> (file_buffer_read fio = Some buf \<and> take 8 buf \<noteq> BOOT_MAGIC
     \<longrightarrow> android_image_load_file fio delete =
           Returned EFI_INVALID_PARAMETER None (if delete then Delete_called else Close_called))"
  using load_partition_bad_magic [of pio] load_file_bad_magic [of fio buf delete]
  by blast

theorem loaders_reject_bad_magic_witness:
  "\<not> EFI_ERROR (gpt_get_partition_by_label_ret example_partition_io)
   \<and> \<not> EFI_ERROR (ReadDisk_header_ret example_partition_io)
   \<and> take 8 (magic (ReadDisk_header example_partition_io)) \<noteq> BOOT_MAGIC
   \<and> android_image_load_partition example_partition_io = (EFI_INVALID_PARAMETER, None)
   \<and> file_buffer_read example_file_io = Some (str8 ''BNDROID!'' @ replicate 8 0)
   \<and> take 8 (str8 ''BNDROID!'' @ replicate 8 0) \<noteq> BOOT_MAGIC
   \<and> android_image_load_file example_file_io True
       = Returned EFI_INVALID_PARAMETER None Delete_called"
  using loaders_reject_bad_magic [of example_partition_io example_file_io
      "str8 ''BNDROID!'' @ replicate 8 0" True]
  by (simp add: example_partition_io_def example_file_io_def file_buffer_read_def
        BOOT_MAGIC_def str8_def)

subsection \<open>Starting the image\<close>

lemma magic_check_literal: "strncmpa BOOT_MAGIC (str8 ''ANDROID!'') BOOT_MAGIC_SIZE = 0"
  unfolding magic_check by (simp add: BOOT_MAGIC_def str8_def)

lemma start_good_image:
  "android_image_start_buffer example_platform example_firmware (Some example_bootimage)
     = Kernel_entered"
  by (simp add: android_image_start_buffer_def example_platform_def example_firmware_def
        example_bootimage_def magic_check_literal setup_ramdisk_def handover_kernel_def
        EFI_SIZE_TO_PAGES_def)

text \<open>
  With a kernel size below the size of the setup code the \<open>UINT32\<close> difference wraps,
  and the copy leaves the buffer.
\<close>

lemma start_short_image:
  "android_image_start_buffer example_platform example_firmware (Some example_short_bootimage)
     = Copy_outside_memory"
  by (simp add: android_image_start_buffer_def example_platform_def example_firmware_def
        example_short_bootimage_def example_bootimage_def magic_check_literal setup_ramdisk_def
        handover_kernel_def EFI_SIZE_TO_PAGES_def)

text \<open>
  C5.  When the boot-sector signature of the buffer is not \<open>0xAA55\<close>, or the version of
  the setup header is below \<open>0x20c\<close>, or the handover flag of the build (the 64-bit
  flag on an LP64 build, the 32-bit flag otherwise) is missing from \<open>xloadflags\<close>, or
  the kernel is not relocatable, \<open>android_image_start_buffer\<close> returns
  \<open>EFI_INVALID_PARAMETER\<close>; it does not enter the kernel.
\<close>

theorem start_buffer_rejects_bad_kernel:
  assumes "signature (hdr img) \<noteq> 0xAA55 \<or> version (hdr img) < 0x20c
     \<or> (if LP64 P then xloadflags (hdr img) AND XLF_EFI_HANDOVER_64 P = 0
         else xloadflags (hdr img) AND XLF_EFI_HANDOVER_32 P = 0)
     \<or> relocatable_kernel (hdr img) = 0"
  shows "android_image_start_buffer P fw (Some img) = Start_returned EFI_INVALID_PARAMETER
       \<and> android_image_start_buffer P fw (Some img) \<noteq> Kernel_entered"
  using assms by (auto simp: android_image_start_buffer_def)

theorem start_buffer_rejects_bad_kernel_witness:
  "version (hdr example_old_bootimage) < 0x20c
   \<and> android_image_start_buffer example_platform example_firmware (Some example_old_bootimage)
       = Start_returned EFI_INVALID_PARAMETER"
  using start_buffer_rejects_bad_kernel [of example_old_bootimage example_platform example_firmware]
  by (simp add: example_old_bootimage_def example_bootimage_def)

subsection \<open>Reading the control block\<close>

lemma takeWhile_until_NUL:
  fixes s :: "'a::zero list"
  shows "i < length s \<Longrightarrow> s ! i = 0 \<Longrightarrow> length (takeWhile (\<lambda>c. c \<noteq> 0) s) \<le> i"
  by (induction s arbitrary: i) (auto simp: nth_Cons split: nat.splits)

lemma cstr_terminated:
  fixes s :: "'a::zero list"
  assumes "i < length s" "s ! i = 0"
  shows "length (cstr s) \<le> i"
  using takeWhile_until_NUL [OF assms] by (simp add: cstr_def)

text \<open>
  C10.  When the misc partition is found and its first 64 bytes are read, \<open>read_bcb\<close>
  returns a record whose command and status fields both have a NUL in their last
  (32nd) byte and are otherwise as read, so each field holds a string of at most 31
  characters.
\<close>

theorem read_bcb_terminates_fields:
  assumes "\<not> EFI_ERROR (misc_partition_ret w)" and "\<not> EFI_ERROR (misc_ReadDisk_ret w)"
    and "length (misc_data w) = 64"
  shows "\<exists>bcb. read_bcb w = Inr bcb
     \<and> length (command bcb) = 32 \<and> length (status bcb) = 32
     \<and> command bcb ! 31 = 0 \<and> status bcb ! 31 = 0
     \<and> take 31 (command bcb) = take 31 (misc_data w)
     \<and> take 31 (status bcb) = take 31 (drop 32 (misc_data w))
     \<and> length (cstr (command bcb)) \<le> 31 \<and> length (cstr (status bcb)) \<le> 31"
proof -
  define bcb where "bcb = \<lparr>command = (take 32 (misc_data w))[31 := 0],
                          status = (take 32 (drop 32 (misc_data w)))[31 := 0]\<rparr>"
  have r: "read_bcb w = Inr bcb"
    using assms by (simp add: read_bcb_def bootloader_message_of_def bcb_def)
  have l: "length (command bcb) = 32" "length (status bcb) = 32"
    using assms by (simp_all add: bcb_def)
  have z: "command bcb ! 31 = 0" "status bcb ! 31 = 0"
    using assms by (simp_all add: bcb_def)
  have t: "take 31 (command bcb) = take 31 (misc_data w)"
      "take 31 (status bcb) = take 31 (drop 32 (misc_data w))"
    using assms by (simp_all add: bcb_def)
  have c: "length (cstr (command bcb)) \<le> 31" "length (cstr (status bcb)) \<le> 31"
    using l z by (simp_all add: cstr_terminated)
  from r l z t c show ?thesis by blast
qed

theorem read_bcb_terminates_fields_witness:
  "\<not> EFI_ERROR (misc_partition_ret example_world_unterminated)
   \<and> \<not> EFI_ERROR (misc_ReadDisk_ret example_world_unterminated)
   \<and> length (misc_data example_world_unterminated) = 64
   \<and> misc_data example_world_unterminated ! 31 = 0x41
   \<and> misc_data example_world_unterminated ! 63 = 0x41
   \<and> (\<exists>bcb. read_bcb example_world_unterminated = Inr bcb
         \<and> command bcb ! 31 = 0 \<and> status bcb ! 31 = 0
         \<and> take 31 (command bcb) = replicate 31 0x41
         \<and> take 31 (status bcb) = replicate 31 0x41
         \<and> length (cstr (command bcb)) \<le> 31 \<and> length (cstr (status bcb)) \<le> 31)"
proof -
  have h: "\<not> EFI_ERROR (misc_partition_ret example_world_unterminated)"
    "\<not> EFI_ERROR (misc_ReadDisk_ret example_world_unterminated)"
    "length (misc_data example_world_unterminated) = 64"
    by (simp_all add: example_world_unterminated_def example_world_def)
  have d: "misc_data example_world_unterminated ! 31 = 0x41"
    "misc_data example_world_unterminated ! 63 = 0x41"
    "take 31 (misc_data example_world_unterminated) = replicate 31 0x41"
    "take 31 (drop 32 (misc_data example_world_unterminated)) = replicate 31 0x41"
    by (simp_all add: example_world_unterminated_def)
  from read_bcb_terminates_fields [OF h] obtain bcb
    where "read_bcb example_world_unterminated = Inr bcb"
      "command bcb ! 31 = 0" "status bcb ! 31 = 0"
      "take 31 (command bcb) = take 31 (misc_data example_world_unterminated)"
      "take 31 (status bcb) = take 31 (drop 32 (misc_data example_world_unterminated))"
      "length (cstr (command bcb)) \<le> 31" "length (cstr (status bcb)) \<le> 31"
    by blast
  with h d show ?thesis by auto
qed

subsection \<open>The magic key timeout\<close>

lemma magic_key_wait_ms_value:
  "magic_key_wait_ms w =
     (case MagicKeyTimeout w of None \<Rightarrow> 200 | Some v \<Rightarrow> if v > 1000 then 200 else v)"
  by (simp add: magic_key_wait_ms_def get_efi_variable_long_from_str8_def
      EFI_RESET_WAIT_MS_def split: option.splits)

lemma poll_key_effects:
  "poll_key rd wait_ms i rk es = (j, r, es') \<Longrightarrow> i \<le> wait_ms \<Longrightarrow>
     i \<le> j \<and> j \<le> wait_ms \<and> r = rd j
     \<and> (\<forall>k. i \<le> k \<and> k < j \<longrightarrow> fst (rd k) \<noteq> EFI_SUCCESS)
     \<and> (j < wait_ms \<longrightarrow> fst (rd j) = EFI_SUCCESS)
     \<and> es' = es @ concat (replicate (j - i) [ReadKeyStroke, Stall 1000]) @ [ReadKeyStroke]"
proof (induction rd wait_ms i rk es arbitrary: j r es' rule: poll_key.induct)
  case (1 rd wait_ms i rk es)
  show ?case
  proof (cases "fst (rd i) = EFI_SUCCESS \<or> i = wait_ms")
    case True
    with "1.prems" show ?thesis by (auto simp: poll_key.simps [of rd wait_ms i])
  next
    case False
    with "1.prems" have p: "poll_key rd wait_ms (i + DETECT_KEY_STALL_TIME_MS) (rd i)
         (es @ [ReadKeyStroke, Stall (DETECT_KEY_STALL_TIME_MS * 1000)]) = (j, r, es')"
      by (simp add: poll_key.simps [of rd wait_ms i])
    from False "1.prems" have le: "i + DETECT_KEY_STALL_TIME_MS \<le> wait_ms"
      by (simp add: DETECT_KEY_STALL_TIME_MS_def)
    from "1.IH" [OF _ _ p le] False "1.prems"
    have ih: "i + 1 \<le> j \<and> j \<le> wait_ms \<and> r = rd j
      \<and> (\<forall>k. i + 1 \<le> k \<and> k < j \<longrightarrow> fst (rd k) \<noteq> EFI_SUCCESS)
      \<and> (j < wait_ms \<longrightarrow> fst (rd j) = EFI_SUCCESS)
      \<and> es' = (es @ [ReadKeyStroke, Stall 1000]) @
        concat (replicate (j - (i + 1)) [ReadKeyStroke, Stall 1000]) @ [ReadKeyStroke]"
      by (simp add: DETECT_KEY_STALL_TIME_MS_def)
    then have "i + 1 \<le> j" by blast
    then have s: "j - i = Suc (j - (i + 1))" by arith
    have first: "fst (rd k) \<noteq> EFI_SUCCESS" if "i \<le> k" "k < j" for k
    proof (cases "k = i")
      case True
      with False show ?thesis by simp
    next
      case False
      with that have "i + 1 \<le> k" by simp
      with ih that show ?thesis by blast
    qed
    from ih s first show ?thesis by simp
  qed
qed


lemma check_magic_key_polls:
  "\<exists>j. j \<le> magic_key_wait_ms w
        \<and> (\<forall>k<j. fst (ReadKeyStroke_result w k) \<noteq> EFI_SUCCESS)
        \<and> (j < magic_key_wait_ms w \<longrightarrow> fst (ReadKeyStroke_result w j) = EFI_SUCCESS)
        \<and> effects (snd (check_magic_key P w)) =
           effects w @ ConIn_Reset # concat (replicate j [ReadKeyStroke, Stall 1000]) @ [ReadKeyStroke]"
proof -
  obtain j r es' where p: "poll_key (ReadKeyStroke_result w) (magic_key_wait_ms w) 0 (EFI_NOT_READY, 0) [ConIn_Reset] = (j, r, es')"
    by (metis prod_cases3)
  from poll_key_effects [OF p] have j: "j \<le> magic_key_wait_ms w"
    and n: "\<forall>k<j. fst (ReadKeyStroke_result w k) \<noteq> EFI_SUCCESS"
    and f: "j < magic_key_wait_ms w \<longrightarrow> fst (ReadKeyStroke_result w j) = EFI_SUCCESS"
    and es: "es' = ConIn_Reset # concat (replicate j [ReadKeyStroke, Stall 1000]) @ [ReadKeyStroke]"
    by simp_all
  have "effects (snd (check_magic_key P w)) = effects w @ es'"
    using p by (cases r) (simp add: check_magic_key_def Let_def)
  with j n f es show ?thesis by blast
qed

lemma check_magic_key_no_key:
  assumes "\<forall>k<magic_key_wait_ms w. fst (ReadKeyStroke_result w k) \<noteq> EFI_SUCCESS"
  shows "effects (snd (check_magic_key P w)) =
           effects w @ ConIn_Reset
             # concat (replicate (magic_key_wait_ms w) [ReadKeyStroke, Stall 1000])
             @ [ReadKeyStroke]"
proof -
  from check_magic_key_polls [of w P] obtain j where j: "j \<le> magic_key_wait_ms w"
    and f: "j < magic_key_wait_ms w \<longrightarrow> fst (ReadKeyStroke_result w j) = EFI_SUCCESS"
    and e: "effects (snd (check_magic_key P w)) =
           effects w @ ConIn_Reset # concat (replicate j [ReadKeyStroke, Stall 1000]) @ [ReadKeyStroke]"
    by blast
  from f assms have "\<not> j < magic_key_wait_ms w" by blast
  with j have "j = magic_key_wait_ms w" by simp
  with e show ?thesis by simp
qed

text \<open>
  C9 as the code has it.  The polling loop of the magic-key check starts with the
  value of the timeout variable when it is at most 1000 ms, and with the fixed
  default of 200 ms when the variable is absent or its value is above 1000 ms (the
  value is replaced by the default, not cut down to a maximum).  The loop reads the
  keyboard and stalls 1 ms until the first read that succeeds; when no read
  succeeds it stalls once for every millisecond of the timeout, and so polls for
  exactly that duration.
\<close>

theorem magic_key_timeout_default_when_implausible:
  "magic_key_wait_ms w =
     (case MagicKeyTimeout w of None \<Rightarrow> 200 | Some v \<Rightarrow> if v > 1000 then 200 else v)
   \<and> magic_key_wait_ms w \<le> 1000
   \<and> (\<exists>j. j \<le> magic_key_wait_ms w
        \<and> (\<forall>k<j. fst (ReadKeyStroke_result w k) \<noteq> EFI_SUCCESS)
        \<and> (j < magic_key_wait_ms w \<longrightarrow> fst (ReadKeyStroke_result w j) = EFI_SUCCESS)
        \<and> effects (snd (check_magic_key P w)) =
           effects w @ ConIn_Reset # concat (replicate j [ReadKeyStroke, Stall 1000]) @ [ReadKeyStroke])
   \<and> ((\<forall>k<magic_key_wait_ms w. fst (ReadKeyStroke_result w k) \<noteq> EFI_SUCCESS)
        \<longrightarrow> effects (snd (check_magic_key P w)) =
             effects w @ ConIn_Reset
               # concat (replicate (magic_key_wait_ms w) [ReadKeyStroke, Stall 1000])
               @ [ReadKeyStroke])"
proof -
  have "magic_key_wait_ms w \<le> 1000"
    by (simp add: magic_key_wait_ms_value split: option.splits)
  with magic_key_wait_ms_value [of w] check_magic_key_polls [of w P]
    check_magic_key_no_key [of w P]
  show ?thesis by blast
qed

theorem magic_key_timeout_default_when_implausible_witness:
  "MagicKeyTimeout example_world = Some 5000
   \<and> ReadKeyStroke_result example_world = (\<lambda>i. (EFI_NOT_READY, 0))
   \<and> effects example_world = []
   \<and> magic_key_wait_ms example_world = 200
   \<and> effects (snd (check_magic_key example_platform example_world)) =
       ConIn_Reset # concat (replicate 200 [ReadKeyStroke, Stall 1000]) @ [ReadKeyStroke]"
proof -
  have v: "MagicKeyTimeout example_world = Some 5000" and e: "effects example_world = []"
    and r: "ReadKeyStroke_result example_world = (\<lambda>i. (EFI_NOT_READY, 0))"
    by (simp_all add: example_world_def)
  note c9 = magic_key_timeout_default_when_implausible [of example_world example_platform]
  from c9 v have t: "magic_key_wait_ms example_world = 200" by simp
  have "\<forall>k<magic_key_wait_ms example_world.
          fst (ReadKeyStroke_result example_world k) \<noteq> EFI_SUCCESS"
    by (simp add: r)
  with c9 have "effects (snd (check_magic_key example_platform example_world)) =
             effects example_world @ ConIn_Reset
               # concat (replicate (magic_key_wait_ms example_world) [ReadKeyStroke, Stall 1000])
               @ [ReadKeyStroke]"
    by blast
  with v r e t show ?thesis by simp
qed

text \<open>
  C9 as stated fails: a persisted timeout of 1000 ms is used as it is, and one of
  5000 ms gives 200 ms, which is not the value cut down to any maximum.
\<close>

theorem magic_key_timeout_not_clamped:
  "MagicKeyTimeout example_world = Some 5000
   \<and> magic_key_wait_ms example_world = 200
   \<and> magic_key_wait_ms example_world \<noteq> min 5000 1000
   \<and> magic_key_wait_ms (example_world\<lparr>MagicKeyTimeout := Some 1000\<rparr>) = 1000"
  by (simp add: example_world_def magic_key_wait_ms_def get_efi_variable_long_from_str8_def
        EFI_RESET_WAIT_MS_def)

subsection \<open>The BCB check\<close>

lemma cstr_append_NUL: "0 \<notin> set X \<Longrightarrow> cstr (X @ 0 # pad) = X"
  by (induction X) (auto simp: cstr_def)

lemma update_after_NUL:
  "length p \<le> i \<Longrightarrow> \<exists>pad'. (p @ 0 # pad)[i := 0] = p @ 0 # pad' \<and> length pad' = length pad"
  by (cases "i - length p") (auto simp: list_update_append)

lemma strncmpa_numeral:
  "strncmpa (c # s1) s2 (numeral k) =
     (if c \<noteq> 0 \<and> c = deref s2 then strncmpa s1 (tl s2) (pred_numeral k)
      else uint c - uint (deref s2))"
  by (simp add: numeral_eq_Suc)

lemma not_boot_dash: "strncmpa (str8 ''bootonce-'' @ r) (str8 ''boot-'') 5 \<noteq> 0"
  by (simp add: str8_def strncmpa_numeral)

lemma is_bootonce_dash: "strncmpa (str8 ''bootonce-'' @ r) (str8 ''bootonce-'') 9 = 0"
  by (simp add: str8_def strncmpa_numeral)

lemma is_boot_dash: "strncmpa (str8 ''boot-'' @ r) (str8 ''boot-'') 5 = 0"
  by (simp add: str8_def strncmpa_numeral)

lemma bcb_target_frame:
  "oneshot (snd (bcb_target P t w)) = oneshot w"
  "misc_data (snd (bcb_target P t w)) = misc_data w"
  by (simp_all add: bcb_target_def Let_def)

lemma bcb_target_name:
  "deref t \<noteq> backslash \<Longrightarrow>
   fst (bcb_target P t w) =
     (if name_to_boot_target P t = UNKNOWN_TARGET then NORMAL_BOOT else name_to_boot_target P t)"
  by (simp add: bcb_target_def Let_def)

lemma check_bcb_bootonce:
  assumes io: "\<not> EFI_ERROR (misc_partition_ret w)" "\<not> EFI_ERROR (misc_ReadDisk_ret w)"
      "\<not> EFI_ERROR (misc_WriteDisk_ret w)"
    and len: "length (misc_data w) = 64"
    and cmd: "take 32 (misc_data w) = str8 ''bootonce-'' @ X @ 0 # pad"
    and X: "0 \<notin> set X"
    and pool: "stra_to_str_alloc w"
  shows "check_bcb P w =
     bcb_target P (map ucast X)
       (w\<lparr>target_path := None, oneshot := True,
           misc_data := ((take 32 (misc_data w))[31 := 0, 0 := 0])
              @ ((take 32 (drop 32 (misc_data w)))[31 := 0, 0 := 0])\<rparr>)"
proof -
  have "length (take 32 (misc_data w)) = 32" using len by simp
  then have "length (str8 ''bootonce-'' @ X @ 0 # pad) = 32" by (simp only: cmd)
  then have "length (str8 ''bootonce-'' @ X) \<le> 31" by simp
  from update_after_NUL [OF this, of pad] obtain pad'
    where upd: "(str8 ''bootonce-'' @ X @ 0 # pad)[31 := 0] = str8 ''bootonce-'' @ X @ 0 # pad'"
    by auto
  define C where "C = (take 32 (misc_data w))[31 := 0]"
  define S where "S = (take 32 (drop 32 (misc_data w)))[31 := 0]"
  have C: "C = str8 ''bootonce-'' @ X @ 0 # pad'" by (simp add: C_def cmd upd)
  have tgt: "stra_to_str True (drop 9 C) = Some (map ucast X)"
    using X by (simp add: C stra_to_str_def cstr_append_NUL str8_def)
  have nb: "strncmpa C (str8 ''boot-'') 5 \<noteq> 0" unfolding C by (rule not_boot_dash)
  have ib: "strncmpa C (str8 ''bootonce-'') 9 = 0" unfolding C
    using is_bootonce_dash [of "X @ 0 # pad'"] by simp
  have rd: "read_bcb (w\<lparr>oneshot := False, target_path := None\<rparr>) = Inr \<lparr>command = C, status = S\<rparr>"
    using io by (simp add: read_bcb_def bootloader_message_of_def C_def S_def)
  show ?thesis
    unfolding check_bcb_def Let_def rd
    using io pool nb ib tgt
    by (simp add: write_bcb_def bytes_of_def len C_def S_def)
qed

lemma check_bcb_boot:
  assumes io: "\<not> EFI_ERROR (misc_partition_ret w)" "\<not> EFI_ERROR (misc_ReadDisk_ret w)"
      "\<not> EFI_ERROR (misc_WriteDisk_ret w)"
    and len: "length (misc_data w) = 64"
    and cmd: "take 32 (misc_data w) = str8 ''boot-'' @ X @ 0 # pad"
    and X: "0 \<notin> set X"
    and pool: "stra_to_str_alloc w"
  shows "check_bcb P w =
     bcb_target P (map ucast X)
       (w\<lparr>oneshot := False, target_path := None,
           misc_data := ((take 32 (misc_data w))[31 := 0])
              @ ((take 32 (drop 32 (misc_data w)))[31 := 0, 0 := 0])\<rparr>)"
proof -
  have "length (take 32 (misc_data w)) = 32" using len by simp
  then have "length (str8 ''boot-'' @ X @ 0 # pad) = 32" by (simp only: cmd)
  then have "length (str8 ''boot-'' @ X) \<le> 31" by simp
  from update_after_NUL [OF this, of pad] obtain pad'
    where upd: "(str8 ''boot-'' @ X @ 0 # pad)[31 := 0] = str8 ''boot-'' @ X @ 0 # pad'"
    by auto
  define C where "C = (take 32 (misc_data w))[31 := 0]"
  define S where "S = (take 32 (drop 32 (misc_data w)))[31 := 0]"
  have C: "C = str8 ''boot-'' @ X @ 0 # pad'" by (simp add: C_def cmd upd)
  have tgt: "stra_to_str True (drop 5 C) = Some (map ucast X)"
    using X by (simp add: C stra_to_str_def cstr_append_NUL str8_def)
  have ib: "strncmpa C (str8 ''boot-'') 5 = 0" unfolding C
    using is_boot_dash [of "X @ 0 # pad'"] by simp
  have rd: "read_bcb (w\<lparr>oneshot := False, target_path := None\<rparr>) = Inr \<lparr>command = C, status = S\<rparr>"
    using io by (simp add: read_bcb_def bootloader_message_of_def C_def S_def)
  show ?thesis
    unfolding check_bcb_def Let_def rd
    using io pool ib tgt
    by (simp add: write_bcb_def bytes_of_def len C_def S_def)
qed


lemma widen_recovery: "map ucast (str8 ''recovery'') = str16 ''recovery''"
  by (simp add: str8_def str16_def)

lemma cstr_update_after_NUL:
  "0 \<notin> set p \<Longrightarrow> length p \<le> i \<Longrightarrow> cstr ((p @ 0 # pad)[i := 0]) = p"
  using update_after_NUL [of p i pad] by (auto simp: cstr_append_NUL)

text \<open>
  C2.  When the misc partition is read and written without error, the conversion of
  the target string gets its memory, and the command field holds the string
  \<open>bootonce-X\<close> for a name \<open>X\<close> that is not a path and that \<open>name_to_boot_target\<close>
  knows, then one pass of the BCB check returns the target of \<open>X\<close>, sets \<open>oneshot\<close>,
  and leaves on the partition a record whose command field is the empty string.
\<close>

theorem check_bcb_bootonce_consumed:
  assumes io: "\<not> EFI_ERROR (misc_partition_ret w)" "\<not> EFI_ERROR (misc_ReadDisk_ret w)"
      "\<not> EFI_ERROR (misc_WriteDisk_ret w)"
    and len: "length (misc_data w) = 64"
    and cmd: "take 32 (misc_data w) = str8 ''bootonce-'' @ X @ 0 # pad"
    and X: "0 \<notin> set X"
    and pool: "stra_to_str_alloc w"
    and name: "deref (map ucast X) \<noteq> backslash"
    and valid: "name_to_boot_target P (map ucast X) \<noteq> UNKNOWN_TARGET"
  shows "fst (check_bcb P w) = name_to_boot_target P (map ucast X)
       \<and> oneshot (snd (check_bcb P w))
       \<and> cstr (command (bootloader_message_of (misc_data (snd (check_bcb P w))))) = []
       \<and> length (misc_data (snd (check_bcb P w))) = 64"
proof -
  have z: "((take 32 (misc_data w))[31 := 0, 0 := 0]) ! 0 = 0" using len by simp
  have "take 32 (((take 32 (misc_data w))[31 := 0, 0 := 0])
              @ ((take 32 (drop 32 (misc_data w)))[31 := 0, 0 := 0])) = (take 32 (misc_data w))[31 := 0, 0 := 0]"
    using len by simp
  moreover have "cstr ((take 32 (misc_data w))[31 := 0, 0 := 0]) = []"
    using len by (cases "take 32 (misc_data w)") (simp_all add: cstr_def)
  ultimately show ?thesis
    unfolding check_bcb_bootonce [OF io len cmd X pool]
    using name valid len
    by (simp add: bcb_target_frame bcb_target_name bootloader_message_of_def)
qed

theorem check_bcb_bootonce_consumed_witness:
  "\<not> EFI_ERROR (misc_partition_ret example_world)
   \<and> \<not> EFI_ERROR (misc_ReadDisk_ret example_world)
   \<and> \<not> EFI_ERROR (misc_WriteDisk_ret example_world)
   \<and> length (misc_data example_world) = 64
   \<and> take 32 (misc_data example_world) = str8 ''bootonce-'' @ str8 ''recovery'' @ 0 # replicate 14 0
   \<and> 0 \<notin> set (str8 ''recovery'')
   \<and> stra_to_str_alloc example_world
   \<and> deref (map ucast (str8 ''recovery'') :: CHAR16 list) \<noteq> backslash
   \<and> name_to_boot_target example_platform (map ucast (str8 ''recovery'')) \<noteq> UNKNOWN_TARGET
   \<and> fst (check_bcb example_platform example_world) = RECOVERY
   \<and> oneshot (snd (check_bcb example_platform example_world))
   \<and> cstr (command (bootloader_message_of
         (misc_data (snd (check_bcb example_platform example_world))))) = []"
proof -
  have io: "\<not> EFI_ERROR (misc_partition_ret example_world)"
      "\<not> EFI_ERROR (misc_ReadDisk_ret example_world)"
      "\<not> EFI_ERROR (misc_WriteDisk_ret example_world)"
    and len: "length (misc_data example_world) = 64"
    and pool: "stra_to_str_alloc example_world"
    by (simp_all add: example_world_def str8_def)
  have cmd: "take 32 (misc_data example_world)
      = str8 ''bootonce-'' @ str8 ''recovery'' @ 0 # replicate 14 0"
    by (simp add: example_world_def str8_def numeral_eq_Suc)
  have X: "0 \<notin> set (str8 ''recovery'')" by (simp add: str8_def)
  have name: "deref (map ucast (str8 ''recovery'') :: CHAR16 list) \<noteq> backslash"
    by (simp add: widen_recovery str16_def backslash_def)
  have t: "name_to_boot_target example_platform (map ucast (str8 ''recovery'')) = RECOVERY"
    by (simp add: widen_recovery example_platform_def)
  then have valid: "name_to_boot_target example_platform (map ucast (str8 ''recovery'')) \<noteq> UNKNOWN_TARGET"
    by simp
  from check_bcb_bootonce_consumed [OF io len cmd X pool name valid] io len cmd X pool name valid t
  show ?thesis by simp
qed

text \<open>
  C3.  When the command field holds the string \<open>boot-X\<close>, one pass of the BCB check
  leaves \<open>oneshot\<close> false and the command field on the partition holds the same
  string afterwards (its first 31 bytes are untouched), whether or not the partition
  can be read or written.  With the command \<open>boot-recovery\<close>, a partition that is
  read and written without error and \<open>recovery\<close> naming the target \<open>RECOVERY\<close>, the
  check returns \<open>RECOVERY\<close>.
\<close>

theorem check_bcb_boot_persistent:
  assumes len: "length (misc_data w) = 64"
    and cmd: "take 32 (misc_data w) = str8 ''boot-'' @ X @ 0 # pad"
    and X: "0 \<notin> set X"
  shows "\<not> oneshot (snd (check_bcb P w))
       \<and> cstr (command (bootloader_message_of (misc_data w))) = str8 ''boot-'' @ X
       \<and> cstr (command (bootloader_message_of (misc_data (snd (check_bcb P w))))) = str8 ''boot-'' @ X
       \<and> take 31 (misc_data (snd (check_bcb P w))) = take 31 (misc_data w)
       \<and> (\<not> EFI_ERROR (misc_partition_ret w) \<and> \<not> EFI_ERROR (misc_ReadDisk_ret w)
            \<and> \<not> EFI_ERROR (misc_WriteDisk_ret w) \<and> stra_to_str_alloc w
            \<and> X = str8 ''recovery'' \<and> name_to_boot_target P (str16 ''recovery'') = RECOVERY
          \<longrightarrow> fst (check_bcb P w) = RECOVERY)"
proof -
  have l32: "length (take 32 (misc_data w)) = 32" using len by simp
  then have "length (str8 ''boot-'' @ X @ 0 # pad) = 32" by (simp only: cmd)
  then have le: "length (str8 ''boot-'' @ X) \<le> 31" by simp
  have nz: "0 \<notin> set (str8 ''boot-'' @ X)" using X by (simp add: str8_def)
  have before: "cstr (take 32 (misc_data w)) = str8 ''boot-'' @ X"
    using cstr_append_NUL [OF nz, of pad] by (simp add: cmd)
  have forced: "cstr ((take 32 (misc_data w))[31 := 0]) = str8 ''boot-'' @ X"
    using cstr_update_after_NUL [OF nz le, of pad] by (simp add: cmd)
  from update_after_NUL [OF le, of pad] obtain pad'
    where upd: "(str8 ''boot-'' @ X @ 0 # pad)[31 := 0] = str8 ''boot-'' @ X @ 0 # pad'"
    by auto
  have ib: "strncmpa ((take 32 (misc_data w))[31 := 0]) (str8 ''boot-'') 5 = 0"
    unfolding cmd upd using is_boot_dash [of "X @ 0 # pad'"] by simp
  have frame: "\<not> oneshot (snd (check_bcb P w))
       \<and> misc_data (snd (check_bcb P w)) = misc_data w
          \<or> \<not> oneshot (snd (check_bcb P w)) \<and> misc_data (snd (check_bcb P w)) =
              (take 32 (misc_data w))[31 := 0] @ (take 32 (drop 32 (misc_data w)))[31 := 0, 0 := 0]"
    using ib len
    by (auto simp: check_bcb_def read_bcb_def write_bcb_def bootloader_message_of_def
        bytes_of_def Let_def bcb_target_frame split: option.splits)
  have a: "\<not> oneshot (snd (check_bcb P w))" using frame by blast
  have b: "cstr (command (bootloader_message_of (misc_data (snd (check_bcb P w))))) = str8 ''boot-'' @ X"
    using frame before forced len by (auto simp: bootloader_message_of_def)
  have c: "take 31 (misc_data (snd (check_bcb P w))) = take 31 (misc_data w)"
    using frame len by (auto simp: take_update_cancel)
  have d: "fst (check_bcb P w) = RECOVERY"
    if "\<not> EFI_ERROR (misc_partition_ret w)" "\<not> EFI_ERROR (misc_ReadDisk_ret w)"
        "\<not> EFI_ERROR (misc_WriteDisk_ret w)" "stra_to_str_alloc w"
        "X = str8 ''recovery''" "name_to_boot_target P (str16 ''recovery'') = RECOVERY"
    unfolding check_bcb_boot [OF that(1-3) len cmd X that(4)]
    using that(5,6) by (simp add: bcb_target_name widen_recovery backslash_def str16_def)
  from a b c d before show ?thesis by (simp add: bootloader_message_of_def)
qed


theorem check_bcb_boot_persistent_witness:
  "length (misc_data example_world_boot) = 64
   \<and> take 32 (misc_data example_world_boot) = str8 ''boot-'' @ str8 ''recovery'' @ 0 # replicate 18 0
   \<and> 0 \<notin> set (str8 ''recovery'')
   \<and> name_to_boot_target example_platform (str16 ''recovery'') = RECOVERY
   \<and> \<not> oneshot (snd (check_bcb example_platform example_world_boot))
   \<and> cstr (command (bootloader_message_of
         (misc_data (snd (check_bcb example_platform example_world_boot))))) = str8 ''boot-recovery''
   \<and> fst (check_bcb example_platform example_world_boot) = RECOVERY"
proof -
  have len: "length (misc_data example_world_boot) = 64"
    by (simp add: example_world_boot_def example_world_def str8_def)
  have cmd: "take 32 (misc_data example_world_boot)
      = str8 ''boot-'' @ str8 ''recovery'' @ 0 # replicate 18 0"
    by (simp add: example_world_boot_def example_world_def str8_def numeral_eq_Suc)
  have X: "0 \<notin> set (str8 ''recovery'')" by (simp add: str8_def)
  have io: "\<not> EFI_ERROR (misc_partition_ret example_world_boot)"
      "\<not> EFI_ERROR (misc_ReadDisk_ret example_world_boot)"
      "\<not> EFI_ERROR (misc_WriteDisk_ret example_world_boot)"
      "stra_to_str_alloc example_world_boot"
    by (simp_all add: example_world_boot_def example_world_def)
  have t: "name_to_boot_target example_platform (str16 ''recovery'') = RECOVERY"
    by (simp add: example_platform_def)
  have s: "str8 ''boot-'' @ str8 ''recovery'' = str8 ''boot-recovery''" by (simp add: str8_def)
  from check_bcb_boot_persistent [OF len cmd X, of example_platform] io len cmd X t s
  show ?thesis by simp
qed

subsection \<open>The watchdog check\<close>

lemma seconds_of_day_range: "0 \<le> seconds_of_day time" "seconds_of_day time < 2 ^ 20"
proof -
  have "uint (Hour time) < 256" "uint (Minute time) < 256" "uint (Second time) < 256"
    using uint_bounded [of "Hour time"] uint_bounded [of "Minute time"]
      uint_bounded [of "Second time"] by simp_all
  then show "seconds_of_day time < 2 ^ 20" by (simp add: seconds_of_day_def)
  show "0 \<le> seconds_of_day time" by (simp add: seconds_of_day_def)
qed

lemma INTN_wraps_on_32_bit: "INTN (P\<lparr>LP64 := False\<rparr>) (2 ^ 31) = - (2 ^ 31)"
  by (simp add: INTN_def signed_take_bit_eq_take_bit_minus)

lemma INTN_diff: "INTN P (INTN P x - INTN P y) = INTN P (x - y)"
  by (simp add: INTN_def signed_take_bit_diff)

lemma INTN_small: "- (2 ^ 31) \<le> x \<Longrightarrow> x < 2 ^ 31 \<Longrightarrow> INTN P x = x"
  by (simp add: INTN_def signed_take_bit_int_eq_self)

lemma time_diff_same_month:
  assumes "Year a = Year b" and "Month a = Month b"
  shows "INTN P (efi_time_to_ctime P a - efi_time_to_ctime P b)
           = seconds_of_day a - seconds_of_day b"
proof -
  define D where "D = month_loop
      (if is_a_leap_year (uint (Year b)) then DAY_OF_MONTH[1 := 29] else DAY_OF_MONTH)
      0 (unat (Month b)) (year_loop 1970 (unat (Year b)) 0) * 24 * 3600"
  have a: "efi_time_to_ctime P a = INTN P (D + seconds_of_day a)"
    using assms by (simp add: efi_time_to_ctime_def seconds_of_day_def Let_def D_def add.assoc)
  have b: "efi_time_to_ctime P b = INTN P (D + seconds_of_day b)"
    by (simp add: efi_time_to_ctime_def seconds_of_day_def Let_def D_def add.assoc)
  have "(D + seconds_of_day a) - (D + seconds_of_day b) = seconds_of_day a - seconds_of_day b"
    by simp
  then have "INTN P (efi_time_to_ctime P a - efi_time_to_ctime P b)
          = INTN P (seconds_of_day a - seconds_of_day b)"
    by (simp only: a b INTN_diff)
  moreover have "- (2 ^ 31) \<le> seconds_of_day a - seconds_of_day b"
      "seconds_of_day a - seconds_of_day b < 2 ^ 31"
    using seconds_of_day_range [of a] seconds_of_day_range [of b] by simp_all
  ultimately show ?thesis by (simp add: INTN_small)
qed

lemma year_loop_first_year: "year_loop 1970 1971 0 = 366"
  by (simp add: year_loop.simps is_a_leap_year_def)

lemma efi_time_to_ctime_ignores_day:
  "efi_time_to_ctime P (time\<lparr>Day := d\<rparr>) = efi_time_to_ctime P time"
  by (simp add: efi_time_to_ctime_def)

lemma example_stale:
  "seconds_of_day (current_time example_world) - seconds_of_day (watchdog_time_reference example_world) = 3600"
  by (simp add: example_world_def example_now_def example_time_ref_def seconds_of_day_def)

text \<open>
  C6 as the code has it.  Take a stored time reference on the same day as the current
  time and more than \<open>WATCHDOG_DELAY\<close> seconds before it, the crash-event menu
  enabled, and the calls that read the status and the clock and write the variables
  succeeding.  One pass of the watchdog check then returns \<open>NORMAL_BOOT\<close> and
  restarts the count: after a reset that is not a kernel or security watchdog reset
  the stored counter is 0; after a watchdog reset the counter is zeroed, the time
  reference becomes the current time, and the reset is counted, so that the stored
  counter is 1.
\<close>

theorem watchdog_stale_window_restarts_count:
  assumes menu: "crash_event_menu w"
    and status: "\<not> EFI_ERROR (get_watchdog_status_ret w)"
    and clock: "\<not> EFI_ERROR (GetTime_ret w)"
    and store: "\<not> EFI_ERROR (reset_watchdog_status_ret w)"
       "\<not> EFI_ERROR (set_watchdog_counter_ret w)"
       "\<not> EFI_ERROR (set_watchdog_time_reference_ret w)"
    and day: "Year (current_time w) = Year (watchdog_time_reference w)"
       "Month (current_time w) = Month (watchdog_time_reference w)"
       "Day (current_time w) = Day (watchdog_time_reference w)"
    and stale: "seconds_of_day (current_time w) - seconds_of_day (watchdog_time_reference w)
                  > WATCHDOG_DELAY"
  shows "fst (check_watchdog P w) = NORMAL_BOOT
       \<and> watchdog_counter (snd (check_watchdog P w))
           = (if watchdog_class (reset_source w) then 1 else 0)
       \<and> (watchdog_class (reset_source w)
            \<longrightarrow> watchdog_time_reference (snd (check_watchdog P w)) = current_time w)"
proof (cases "watchdog_class (reset_source w)")
  case False
  with menu status store show ?thesis
    by (simp add: check_watchdog_def watchdog_class_def reset_watchdog_status_def Let_def)
next
  case True
  have diff: "INTN P (efi_time_to_ctime P (current_time w)
                      - efi_time_to_ctime P (watchdog_time_reference w)) > WATCHDOG_DELAY"
    using time_diff_same_month [OF day(1,2), of P] stale by simp
  have one: "unat (1 :: 8 word) \<le> WATCHDOG_COUNTER_MAX" by (simp add: WATCHDOG_COUNTER_MAX_def)
  show ?thesis
  proof (cases "watchdog_counter w = 0")
    case z: True
    with True menu status clock store one show ?thesis
      by (auto simp: check_watchdog_def watchdog_class_def set_watchdog_time_reference_def
          set_watchdog_counter_def Let_def)
  next
    case nz: False
    then have "0 < watchdog_counter w" by (simp add: word_greater_zero_iff)
    with True menu status clock store one diff show ?thesis
      by (auto simp: check_watchdog_def watchdog_class_def set_watchdog_time_reference_def
          set_watchdog_counter_def Let_def)
  qed
qed

theorem watchdog_stale_window_restarts_count_witness:
  "crash_event_menu example_world
   \<and> \<not> EFI_ERROR (get_watchdog_status_ret example_world)
   \<and> \<not> EFI_ERROR (GetTime_ret example_world)
   \<and> \<not> EFI_ERROR (reset_watchdog_status_ret example_world)
   \<and> \<not> EFI_ERROR (set_watchdog_counter_ret example_world)
   \<and> \<not> EFI_ERROR (set_watchdog_time_reference_ret example_world)
   \<and> Year (current_time example_world) = Year (watchdog_time_reference example_world)
   \<and> Month (current_time example_world) = Month (watchdog_time_reference example_world)
   \<and> Day (current_time example_world) = Day (watchdog_time_reference example_world)
   \<and> seconds_of_day (current_time example_world)
        - seconds_of_day (watchdog_time_reference example_world) > WATCHDOG_DELAY
   \<and> watchdog_class (reset_source example_world)
   \<and> watchdog_counter (snd (check_watchdog example_platform example_world)) = 1
   \<and> watchdog_time_reference (snd (check_watchdog example_platform example_world)) = example_now"
proof -
  have h: "crash_event_menu example_world"
    "\<not> EFI_ERROR (get_watchdog_status_ret example_world)"
    "\<not> EFI_ERROR (GetTime_ret example_world)"
    "\<not> EFI_ERROR (reset_watchdog_status_ret example_world)"
    "\<not> EFI_ERROR (set_watchdog_counter_ret example_world)"
    "\<not> EFI_ERROR (set_watchdog_time_reference_ret example_world)"
    "Year (current_time example_world) = Year (watchdog_time_reference example_world)"
    "Month (current_time example_world) = Month (watchdog_time_reference example_world)"
    "Day (current_time example_world) = Day (watchdog_time_reference example_world)"
    by (simp_all add: example_world_def example_now_def example_time_ref_def)
  have s: "seconds_of_day (current_time example_world)
        - seconds_of_day (watchdog_time_reference example_world) > WATCHDOG_DELAY"
    by (simp add: example_stale WATCHDOG_DELAY_def)
  have c: "watchdog_class (reset_source example_world)" "current_time example_world = example_now"
    by (simp_all add: example_world_def watchdog_class_def)
  from watchdog_stale_window_restarts_count [OF h s, of example_platform] h s c
  show ?thesis by simp
qed

text \<open>
  C6 as stated fails: two watchdog resets counted, a third one an hour after the time
  reference (same day), and the stored counter after the pass is 1, not 0.
\<close>

theorem watchdog_counter_not_zero_after_watchdog_reset:
  "crash_event_menu example_world
   \<and> reset_source example_world = RESET_KERNEL_WATCHDOG
   \<and> watchdog_counter example_world = 2
   \<and> Year (current_time example_world) = Year (watchdog_time_reference example_world)
   \<and> Month (current_time example_world) = Month (watchdog_time_reference example_world)
   \<and> Day (current_time example_world) = Day (watchdog_time_reference example_world)
   \<and> seconds_of_day (current_time example_world)
        - seconds_of_day (watchdog_time_reference example_world) = 3600
   \<and> 3600 > WATCHDOG_DELAY
   \<and> watchdog_counter (snd (check_watchdog example_platform example_world)) = 1
   \<and> watchdog_counter (snd (check_watchdog example_platform example_world)) \<noteq> 0"
proof -
  have d: "INTN example_platform (efi_time_to_ctime example_platform example_now
              - efi_time_to_ctime example_platform example_time_ref) = 3600"
    using time_diff_same_month [of example_now example_time_ref example_platform]
    by (simp add: example_now_def example_time_ref_def seconds_of_day_def)
  have "watchdog_counter (snd (check_watchdog example_platform example_world)) = 1"
    by (simp add: check_watchdog_def example_world_def d WATCHDOG_DELAY_def
        WATCHDOG_COUNTER_MAX_def set_watchdog_time_reference_def set_watchdog_counter_def Let_def)
  then show ?thesis
    by (simp add: example_stale WATCHDOG_DELAY_def)
       (simp add: example_world_def example_now_def example_time_ref_def)
qed

text \<open>
  \<open>efi_time_to_ctime\<close> never reads \<open>time->Day\<close>: a watchdog reset a full day after the
  time reference is taken to be 0 seconds after it, and the count goes on.
\<close>

lemma watchdog_day_ignored:
  "watchdog_counter example_world_next_day = 1
   \<and> reset_source example_world_next_day = RESET_KERNEL_WATCHDOG
   \<and> watchdog_time_reference example_world_next_day = example_time_ref
   \<and> current_time example_world_next_day = example_time_ref\<lparr>Day := 2\<rparr>
   \<and> INTN example_platform
        (efi_time_to_ctime example_platform (current_time example_world_next_day)
         - efi_time_to_ctime example_platform (watchdog_time_reference example_world_next_day)) = 0
   \<and> watchdog_counter (snd (check_watchdog example_platform example_world_next_day)) = 2"
proof -
  have z: "INTN example_platform 0 = 0" by (simp add: INTN_def)
  show ?thesis
    by (simp add: check_watchdog_def example_world_next_day_def example_world_def
        efi_time_to_ctime_ignores_day z WATCHDOG_DELAY_def WATCHDOG_COUNTER_MAX_def
        set_watchdog_counter_def Let_def)
qed

subsection \<open>The order of the checks\<close>

lemma choose_boot_target_is_first_decisive:
  "choose_boot_target P w =
     first_decisive (boot_checks P) (w\<lparr>target_path := None, target_address := 0, oneshot := True\<rparr>)"
  by (simp add: choose_boot_target_def boot_checks_def with_low_battery_notice_def Let_def
      split: prod.splits)

lemma checks_logged_append: "checks_logged (xs @ ys) = checks_logged xs @ checks_logged ys"
  by (induction xs rule: checks_logged.induct) simp_all

lemma checks_logged_polls:
  "checks_logged (concat (replicate j [ReadKeyStroke, Stall n])) = []"
  by (induction j) simp_all

lemma parse_argv_logs_no_check:
  "checks_logged (snd (snd (parse_argv P first args bt address))) = []"
  by (induction P first args bt address rule: parse_argv.induct)
     (auto split: list.splits)

lemma check_watchdog_logs_no_check:
  "checks_logged (effects (snd (check_watchdog P w))) = checks_logged (effects w)"
  by (simp add: check_watchdog_def reset_watchdog_status_def set_watchdog_counter_def
      set_watchdog_time_reference_def add_effect_def checks_logged_append Let_def)

lemma check_command_line_logs_no_check:
  "checks_logged (effects (snd (check_command_line P w))) = checks_logged (effects w)"
  using parse_argv_logs_no_check [of P True "argv w" NORMAL_BOOT 0]
  by (auto simp: check_command_line_def checks_logged_append Let_def split: prod.splits)

lemma check_fastboot_sentinel_logs_no_check:
  "checks_logged (effects (snd (check_fastboot_sentinel w))) = checks_logged (effects w)"
  by (simp add: check_fastboot_sentinel_def)

lemma check_magic_key_logs_no_check:
  "checks_logged (effects (snd (check_magic_key P w))) = checks_logged (effects w)"
  using check_magic_key_polls [of w P]
  by (auto simp: checks_logged_append checks_logged_polls)

lemma check_battery_inserted_logs_no_check:
  "checks_logged (effects (snd (check_battery_inserted w))) = checks_logged (effects w)"
  by (simp add: check_battery_inserted_def)

lemma check_bcb_logs_no_check:
  "checks_logged (effects (snd (check_bcb P w))) = checks_logged (effects w)"
  by (simp add: check_bcb_def read_bcb_def write_bcb_def bcb_target_def Let_def
      split: option.splits)

lemma check_loader_entry_one_shot_logs_no_check:
  "checks_logged (effects (snd (check_loader_entry_one_shot P w))) = checks_logged (effects w)"
  by (simp add: check_loader_entry_one_shot_def Let_def split: option.splits)

lemma check_battery_logs_no_check:
  "checks_logged (effects (snd (with_low_battery_notice check_battery w))) = checks_logged (effects w)"
  by (simp add: with_low_battery_notice_def check_battery_def add_effect_def checks_logged_append)

lemma check_charge_mode_logs_no_check:
  "checks_logged (effects (snd (check_charge_mode w))) = checks_logged (effects w)"
  by (simp add: check_charge_mode_def)

lemma first_decisive_logged:
  assumes "\<And>name check w. (name, check) \<in> set cs \<Longrightarrow>
             checks_logged (effects (snd (check w))) = checks_logged (effects w)"
  shows "checks_logged (effects (snd (first_decisive cs w)))
           = checks_logged (effects w) @ take (evaluated cs w) (map fst cs)"
  using assms
proof (induction cs arbitrary: w)
  case Nil
  then show ?case by simp
next
  case (Cons c cs)
  obtain name check where c: "c = (name, check)" by (cases c)
  obtain ret w' where r: "check (add_effect (Bootlogic name) w) = (ret, w')"
    by (cases "check (add_effect (Bootlogic name) w)")
  have "checks_logged (effects (snd (check (add_effect (Bootlogic name) w))))
          = checks_logged (effects (add_effect (Bootlogic name) w))"
    using Cons.prems [of name check] c by simp
  then have l: "checks_logged (effects w') = checks_logged (effects w) @ [name]"
    using r by (simp add: add_effect_def checks_logged_append)
  have ih: "checks_logged (effects (snd (first_decisive cs w')))
           = checks_logged (effects w') @ take (evaluated cs w') (map fst cs)"
  proof (rule Cons.IH)
    fix name check w
    assume "(name, check) \<in> set cs"
    then show "checks_logged (effects (snd (check w))) = checks_logged (effects w)"
      using Cons.prems [of name check w] by simp
  qed
  show ?case
    using c r l ih by simp
qed


lemma boot_checks_logged:
  assumes "(name, check) \<in> set (boot_checks P)"
  shows "checks_logged (effects (snd (check w))) = checks_logged (effects w)"
  using assms
  by (auto simp: boot_checks_def check_watchdog_logs_no_check check_command_line_logs_no_check
      check_fastboot_sentinel_logs_no_check check_magic_key_logs_no_check
      check_battery_inserted_logs_no_check check_bcb_logs_no_check
      check_loader_entry_one_shot_logs_no_check check_battery_logs_no_check
      check_charge_mode_logs_no_check)

text \<open>
  C1.  \<open>choose_boot_target\<close> tries the nine checks in the order watchdog, command
  line, fastboot sentinel, magic key, battery insertion, BCB, one-shot variable,
  battery level, charge mode.  Its result and the state it leaves are those of the
  first check in that order whose result is not \<open>NORMAL_BOOT\<close>, and \<open>NORMAL_BOOT\<close> when
  every check defers; the checks it logs are the ones up to and including the
  deciding one, so no later check is run.
\<close>

theorem choose_boot_target_first_decisive_check:
  "map fst (boot_checks P) =
     [''Check watchdog...'', ''Check osloader command line...'', ''Check fastboot sentinel...'',
      ''Check magic key...'', ''Check battery insertion...'', ''Check BCB...'',
      ''Check reboot target...'', ''Check battery level...'', ''Check charger insertion...'']
   \<and> choose_boot_target P w =
       first_decisive (boot_checks P)
         (w\<lparr>target_path := None, target_address := 0, oneshot := True\<rparr>)
   \<and> checks_logged (effects (snd (choose_boot_target P w))) =
       checks_logged (effects w)
       @ take (evaluated (boot_checks P)
                 (w\<lparr>target_path := None, target_address := 0, oneshot := True\<rparr>))
           (map fst (boot_checks P))"
proof -
  have "checks_logged (effects (snd (choose_boot_target P w))) =
       checks_logged (effects (w\<lparr>target_path := None, target_address := 0, oneshot := True\<rparr>))
       @ take (evaluated (boot_checks P)
                 (w\<lparr>target_path := None, target_address := 0, oneshot := True\<rparr>))
           (map fst (boot_checks P))"
    unfolding choose_boot_target_is_first_decisive
    by (rule first_decisive_logged) (rule boot_checks_logged)
  then show ?thesis
    by (simp add: choose_boot_target_is_first_decisive) (simp add: boot_checks_def)
qed

theorem choose_boot_target_first_decisive_check_witness:
  "fst (choose_boot_target example_platform example_world_sentinel) = FASTBOOT
   \<and> evaluated (boot_checks example_platform)
        (example_world_sentinel\<lparr>target_path := None, target_address := 0, oneshot := True\<rparr>) = 3
   \<and> checks_logged (effects (snd (choose_boot_target example_platform example_world_sentinel))) =
       [''Check watchdog...'', ''Check osloader command line...'', ''Check fastboot sentinel...'']"
proof -
  have e: "checks_logged (effects example_world_sentinel) = []"
    by (simp add: example_world_sentinel_def example_world_def)
  have n: "evaluated (boot_checks example_platform)
        (example_world_sentinel\<lparr>target_path := None, target_address := 0, oneshot := True\<rparr>) = 3"
    by (simp add: boot_checks_def example_world_sentinel_def example_world_def add_effect_def
        check_watchdog_def check_command_line_def check_fastboot_sentinel_def)
  have f: "fst (first_decisive (boot_checks example_platform)
        (example_world_sentinel\<lparr>target_path := None, target_address := 0, oneshot := True\<rparr>)) = FASTBOOT"
    by (simp add: boot_checks_def example_world_sentinel_def example_world_def add_effect_def
        check_watchdog_def check_command_line_def check_fastboot_sentinel_def)
  note c1 = choose_boot_target_first_decisive_check [of example_platform example_world_sentinel]
  from c1 have names: "map fst (boot_checks example_platform) =
     [''Check watchdog...'', ''Check osloader command line...'', ''Check fastboot sentinel...'',
      ''Check magic key...'', ''Check battery insertion...'', ''Check BCB...'',
      ''Check reboot target...'', ''Check battery level...'', ''Check charger insertion...'']"
    by blast
  from c1 have chain: "choose_boot_target example_platform example_world_sentinel =
       first_decisive (boot_checks example_platform)
         (example_world_sentinel\<lparr>target_path := None, target_address := 0, oneshot := True\<rparr>)"
    by blast
  from c1 have "checks_logged (effects (snd (choose_boot_target example_platform example_world_sentinel))) =
       checks_logged (effects example_world_sentinel)
       @ take (evaluated (boot_checks example_platform)
                 (example_world_sentinel\<lparr>target_path := None, target_address := 0, oneshot := True\<rparr>))
           (map fst (boot_checks example_platform))"
    by blast
  then have logged: "checks_logged (effects (snd (choose_boot_target example_platform example_world_sentinel))) =
       [''Check watchdog...'', ''Check osloader command line...'', ''Check fastboot sentinel...'']"
    by (simp only: e n names) simp
  from f chain have "fst (choose_boot_target example_platform example_world_sentinel) = FASTBOOT"
    by simp
  with n logged show ?thesis by blast
qed

subsection \<open>The one-shot variable\<close>

lemma widen_charging: "map ucast (str8 ''charging'') = str16 ''charging''"
  by (simp add: str8_def str16_def)

lemma check_bcb_boot_charging:
  "fst (check_bcb example_platform example_world_boot_charging) = CHARGER"
proof -
  have io: "\<not> EFI_ERROR (misc_partition_ret example_world_boot_charging)"
      "\<not> EFI_ERROR (misc_ReadDisk_ret example_world_boot_charging)"
      "\<not> EFI_ERROR (misc_WriteDisk_ret example_world_boot_charging)"
    and len: "length (misc_data example_world_boot_charging) = 64"
    and pool: "stra_to_str_alloc example_world_boot_charging"
    by (simp_all add: example_world_boot_charging_def example_world_def str8_def)
  have cmd: "take 32 (misc_data example_world_boot_charging)
      = str8 ''boot-'' @ str8 ''charging'' @ 0 # replicate 18 0"
    by (simp add: example_world_boot_charging_def example_world_def str8_def numeral_eq_Suc)
  have X: "0 \<notin> set (str8 ''charging'')" by (simp add: str8_def)
  show ?thesis
    unfolding check_bcb_boot [OF io len cmd X pool]
    by (simp add: bcb_target_name widen_charging backslash_def str16_def example_platform_def)
qed

text \<open>
  C8 as the code has it.  Whatever the one-shot variable holds, it is gone after the
  check.  Without a variable, and with a name that \<open>name_to_boot_target\<close> does not
  know, the check returns \<open>NORMAL_BOOT\<close>.  A known name is resolved by
  \<open>name_to_boot_target\<close>, as the BCB check resolves it (\<open>bcb_target\<close>, for a name that
  is not a path), with one exception: a name that resolves to \<open>CHARGER\<close> gives
  \<open>POWER_OFF\<close> when off-mode charging is not set.
\<close>

theorem one_shot_deleted_and_resolved:
  "LoaderEntryOneShot (snd (check_loader_entry_one_shot P w)) = None
   \<and> (LoaderEntryOneShot w = None \<longrightarrow> fst (check_loader_entry_one_shot P w) = NORMAL_BOOT)
   \<and> (LoaderEntryOneShot w = Some name \<and> name_to_boot_target P name = UNKNOWN_TARGET
        \<longrightarrow> fst (check_loader_entry_one_shot P w) = NORMAL_BOOT)
   \<and> (LoaderEntryOneShot w = Some name \<and> deref name \<noteq> backslash
        \<longrightarrow> fst (check_loader_entry_one_shot P w) =
             (if fst (bcb_target P name w) = CHARGER \<and> \<not> off_mode_charge w then POWER_OFF
              else fst (bcb_target P name w)))
   \<and> (LoaderEntryOneShot w = Some name \<and> name_to_boot_target P name \<noteq> UNKNOWN_TARGET
        \<longrightarrow> fst (check_loader_entry_one_shot P w) =
             (if name_to_boot_target P name = CHARGER \<and> \<not> off_mode_charge w then POWER_OFF
              else name_to_boot_target P name))"
  by (auto simp: check_loader_entry_one_shot_def bcb_target_def Let_def split: option.splits)

theorem one_shot_deleted_and_resolved_witness:
  "LoaderEntryOneShot example_world = Some (str16 ''charging'')
   \<and> deref (str16 ''charging'') \<noteq> backslash
   \<and> name_to_boot_target example_platform (str16 ''charging'') \<noteq> UNKNOWN_TARGET
   \<and> LoaderEntryOneShot (snd (check_loader_entry_one_shot example_platform example_world)) = None
   \<and> fst (bcb_target example_platform (str16 ''charging'') example_world) = CHARGER
   \<and> fst (check_loader_entry_one_shot example_platform example_world) = POWER_OFF"
  using one_shot_deleted_and_resolved [of example_platform example_world "str16 ''charging''"]
  by (simp add: example_world_def example_platform_def bcb_target_def backslash_def str16_def)

text \<open>
  C8 as stated fails: with off-mode charging not set, the name \<open>charging\<close> in the
  one-shot variable gives \<open>POWER_OFF\<close>, while the resolution of the name, and the BCB
  check on the command \<open>boot-charging\<close>, give \<open>CHARGER\<close>.
\<close>

theorem one_shot_charger_becomes_power_off:
  "LoaderEntryOneShot example_world = Some (str16 ''charging'')
   \<and> \<not> off_mode_charge example_world
   \<and> name_to_boot_target example_platform (str16 ''charging'') = CHARGER
   \<and> fst (check_bcb example_platform example_world_boot_charging) = CHARGER
   \<and> fst (check_loader_entry_one_shot example_platform example_world) = POWER_OFF
   \<and> fst (check_loader_entry_one_shot example_platform example_world)
       \<noteq> name_to_boot_target example_platform (str16 ''charging'')"
  using check_bcb_boot_charging
  by (simp add: example_world_def example_platform_def check_loader_entry_one_shot_def str16_def)

end
